theory Spec2Isabelle
  imports Complex_Main "HOL-Library.AList"
begin

section \<open>Void-Tax: deduplication cache and fine-decision pipeline\<close>

text \<open>
  A shallow embedding of the core of the Void-Tax backend:
  \<^item> \<open>app/models/schemas.py\<close>: \<open>ComplianceStatus\<close>, \<open>VehicleStatus\<close>, \<open>ScanResult\<close>,
    \<open>FineRecord\<close>;
  \<^item> \<open>app/config.py\<close>: \<open>Settings\<close>;
  \<^item> \<open>app/services/plate_cache.py\<close>: \<open>CacheEntry\<close>, \<open>PlateCache\<close>;
  \<^item> \<open>app/services/validation_api.py\<close>: \<open>ValidationAPIClient\<close>;
  \<^item> \<open>app/services/fine_service.py\<close>: \<open>FineService\<close>;
  \<^item> \<open>app/routers/scan.py\<close>: \<open>_process_plate\<close>.

  Conventions of the embedding.
  \<^item> Python \<open>str\<close> is a list of Unicode code points (natural numbers), and
    \<open>str.upper\<close> is the full case mapping of Unicode, given as a table.
  \<^item> \<open>datetime\<close> and \<open>timedelta\<close> are integers counting microseconds (the resolution
    of both Python types); every \<open>datetime.now()\<close> of the source is an explicit
    argument of the operation that reads the clock.
  \<^item> Python \<open>float\<close> amounts and confidences are real numbers. The only float
    operations of the core are one addition of two configured amounts, a test against
    zero and comparisons against the literal \<open>0.9\<close>; a float \<open>c\<close> satisfies
    \<open>c >= 0.9\<close> in Python exactly when its value is at least nine tenths, because no
    float lies strictly between nine tenths and the float nearest to it.
  \<^item> The dictionary of the cache is an association list in insertion order, with
    \<open>AList.update\<close> for \<open>d[k] = v\<close> and \<open>AList.delete\<close> for \<open>del d[k]\<close>.
  \<^item> The two SQL tables are lists of rows in insertion order; a commit always succeeds.
  \<^item> Mutation is state passing: an operation returns its result and the new state.
  \<^item> Record fields carry a short prefix where two classes of the source share a
    field name (\<open>plate_number\<close>, \<open>confidence\<close>, ...).
\<close>

subsection \<open>Strings\<close>

type_synonym datetime = int
type_synonym timedelta = int

text \<open>
  A Python \<open>str\<close> is the list of its Unicode code points; \<open>ascii\<close> embeds a literal
  of the source.
\<close>

type_synonym codepoint = nat
type_synonym pystr = "codepoint list"

definition ascii :: "string \<Rightarrow> pystr" where
  "ascii s = map of_char s"

definition is_ascii_lower :: "codepoint \<Rightarrow> bool" where
  "is_ascii_lower c = (97 \<le> c \<and> c \<le> 122)"

definition is_ascii_upper :: "codepoint \<Rightarrow> bool" where
  "is_ascii_upper c = (65 \<le> c \<and> c \<le> 90)"

definition is_ascii_digit :: "codepoint \<Rightarrow> bool" where
  "is_ascii_digit c = (48 \<le> c \<and> c \<le> 57)"

definition is_ascii_alnum :: "codepoint \<Rightarrow> bool" where
  "is_ascii_alnum c = (is_ascii_lower c \<or> is_ascii_upper c \<or> is_ascii_digit c)"

text \<open>
  \<open>str.upper()\<close> replaces every code point by its full uppercase mapping, one code
  point at a time and without regard to context; the mapping of a code point can be
  several code points (\<open>U+00DF\<close> becomes \<open>SS\<close>). The table below lists every code point
  that \<open>str.upper\<close> changes, with its replacement, as CPython 3.11 (Unicode 14.0.0) has
  it: 1525 code points in 60 blocks of 64. The entries of a block are in a list of their
  own, named after the first code point of the block in hexadecimal; \<open>upper_blocks\<close>
  lists the blocks in ascending order with their bounds.
\<close>

definition upper_0040 :: "(nat \<times> nat list) list" where
  "upper_0040 =
    [(97, [65]), (98, [66]), (99, [67]), (100, [68]), (101, [69]), (102, [70]), (103, [71]),
     (104, [72]), (105, [73]), (106, [74]), (107, [75]), (108, [76]), (109, [77]), (110, [78]),
     (111, [79]), (112, [80]), (113, [81]), (114, [82]), (115, [83]), (116, [84]), (117, [85]),
     (118, [86]), (119, [87]), (120, [88]), (121, [89]), (122, [90])]"

definition upper_0080 :: "(nat \<times> nat list) list" where
  "upper_0080 =
    [(181, [924])]"

definition upper_00C0 :: "(nat \<times> nat list) list" where
  "upper_00C0 =
    [(223, [83, 83]), (224, [192]), (225, [193]), (226, [194]), (227, [195]), (228, [196]),
     (229, [197]), (230, [198]), (231, [199]), (232, [200]), (233, [201]), (234, [202]),
     (235, [203]), (236, [204]), (237, [205]), (238, [206]), (239, [207]), (240, [208]),
     (241, [209]), (242, [210]), (243, [211]), (244, [212]), (245, [213]), (246, [214]),
     (248, [216]), (249, [217]), (250, [218]), (251, [219]), (252, [220]), (253, [221]),
     (254, [222]), (255, [376])]"

definition upper_0100 :: "(nat \<times> nat list) list" where
  "upper_0100 =
    [(257, [256]), (259, [258]), (261, [260]), (263, [262]), (265, [264]), (267, [266]),
     (269, [268]), (271, [270]), (273, [272]), (275, [274]), (277, [276]), (279, [278]),
     (281, [280]), (283, [282]), (285, [284]), (287, [286]), (289, [288]), (291, [290]),
     (293, [292]), (295, [294]), (297, [296]), (299, [298]), (301, [300]), (303, [302]),
     (305, [73]), (307, [306]), (309, [308]), (311, [310]), (314, [313]), (316, [315]),
     (318, [317])]"

definition upper_0140 :: "(nat \<times> nat list) list" where
  "upper_0140 =
    [(320, [319]), (322, [321]), (324, [323]), (326, [325]), (328, [327]), (329, [700, 78]),
     (331, [330]), (333, [332]), (335, [334]), (337, [336]), (339, [338]), (341, [340]),
     (343, [342]), (345, [344]), (347, [346]), (349, [348]), (351, [350]), (353, [352]),
     (355, [354]), (357, [356]), (359, [358]), (361, [360]), (363, [362]), (365, [364]),
     (367, [366]), (369, [368]), (371, [370]), (373, [372]), (375, [374]), (378, [377]),
     (380, [379]), (382, [381]), (383, [83])]"

definition upper_0180 :: "(nat \<times> nat list) list" where
  "upper_0180 =
    [(384, [579]), (387, [386]), (389, [388]), (392, [391]), (396, [395]), (402, [401]),
     (405, [502]), (409, [408]), (410, [573]), (414, [544]), (417, [416]), (419, [418]),
     (421, [420]), (424, [423]), (429, [428]), (432, [431]), (436, [435]), (438, [437]),
     (441, [440]), (445, [444]), (447, [503])]"

definition upper_01C0 :: "(nat \<times> nat list) list" where
  "upper_01C0 =
    [(453, [452]), (454, [452]), (456, [455]), (457, [455]), (459, [458]), (460, [458]),
     (462, [461]), (464, [463]), (466, [465]), (468, [467]), (470, [469]), (472, [471]),
     (474, [473]), (476, [475]), (477, [398]), (479, [478]), (481, [480]), (483, [482]),
     (485, [484]), (487, [486]), (489, [488]), (491, [490]), (493, [492]), (495, [494]),
     (496, [74, 780]), (498, [497]), (499, [497]), (501, [500]), (505, [504]), (507, [506]),
     (509, [508]), (511, [510])]"

definition upper_0200 :: "(nat \<times> nat list) list" where
  "upper_0200 =
    [(513, [512]), (515, [514]), (517, [516]), (519, [518]), (521, [520]), (523, [522]),
     (525, [524]), (527, [526]), (529, [528]), (531, [530]), (533, [532]), (535, [534]),
     (537, [536]), (539, [538]), (541, [540]), (543, [542]), (547, [546]), (549, [548]),
     (551, [550]), (553, [552]), (555, [554]), (557, [556]), (559, [558]), (561, [560]),
     (563, [562]), (572, [571]), (575, [11390])]"

definition upper_0240 :: "(nat \<times> nat list) list" where
  "upper_0240 =
    [(576, [11391]), (578, [577]), (583, [582]), (585, [584]), (587, [586]), (589, [588]),
     (591, [590]), (592, [11375]), (593, [11373]), (594, [11376]), (595, [385]), (596, [390]),
     (598, [393]), (599, [394]), (601, [399]), (603, [400]), (604, [42923]), (608, [403]),
     (609, [42924]), (611, [404]), (613, [42893]), (614, [42922]), (616, [407]), (617, [406]),
     (618, [42926]), (619, [11362]), (620, [42925]), (623, [412]), (625, [11374]), (626, [413]),
     (629, [415]), (637, [11364])]"

definition upper_0280 :: "(nat \<times> nat list) list" where
  "upper_0280 =
    [(640, [422]), (642, [42949]), (643, [425]), (647, [42929]), (648, [430]), (649, [580]),
     (650, [433]), (651, [434]), (652, [581]), (658, [439]), (669, [42930]), (670, [42928])]"

definition upper_0340 :: "(nat \<times> nat list) list" where
  "upper_0340 =
    [(837, [921]), (881, [880]), (883, [882]), (887, [886]), (891, [1021]), (892, [1022]),
     (893, [1023])]"

definition upper_0380 :: "(nat \<times> nat list) list" where
  "upper_0380 =
    [(912, [921, 776, 769]), (940, [902]), (941, [904]), (942, [905]), (943, [906]),
     (944, [933, 776, 769]), (945, [913]), (946, [914]), (947, [915]), (948, [916]),
     (949, [917]), (950, [918]), (951, [919]), (952, [920]), (953, [921]), (954, [922]),
     (955, [923]), (956, [924]), (957, [925]), (958, [926]), (959, [927])]"

definition upper_03C0 :: "(nat \<times> nat list) list" where
  "upper_03C0 =
    [(960, [928]), (961, [929]), (962, [931]), (963, [931]), (964, [932]), (965, [933]),
     (966, [934]), (967, [935]), (968, [936]), (969, [937]), (970, [938]), (971, [939]),
     (972, [908]), (973, [910]), (974, [911]), (976, [914]), (977, [920]), (981, [934]),
     (982, [928]), (983, [975]), (985, [984]), (987, [986]), (989, [988]), (991, [990]),
     (993, [992]), (995, [994]), (997, [996]), (999, [998]), (1001, [1000]), (1003, [1002]),
     (1005, [1004]), (1007, [1006]), (1008, [922]), (1009, [929]), (1010, [1017]),
     (1011, [895]), (1013, [917]), (1016, [1015]), (1019, [1018])]"

definition upper_0400 :: "(nat \<times> nat list) list" where
  "upper_0400 =
    [(1072, [1040]), (1073, [1041]), (1074, [1042]), (1075, [1043]), (1076, [1044]),
     (1077, [1045]), (1078, [1046]), (1079, [1047]), (1080, [1048]), (1081, [1049]),
     (1082, [1050]), (1083, [1051]), (1084, [1052]), (1085, [1053]), (1086, [1054]),
     (1087, [1055])]"

definition upper_0440 :: "(nat \<times> nat list) list" where
  "upper_0440 =
    [(1088, [1056]), (1089, [1057]), (1090, [1058]), (1091, [1059]), (1092, [1060]),
     (1093, [1061]), (1094, [1062]), (1095, [1063]), (1096, [1064]), (1097, [1065]),
     (1098, [1066]), (1099, [1067]), (1100, [1068]), (1101, [1069]), (1102, [1070]),
     (1103, [1071]), (1104, [1024]), (1105, [1025]), (1106, [1026]), (1107, [1027]),
     (1108, [1028]), (1109, [1029]), (1110, [1030]), (1111, [1031]), (1112, [1032]),
     (1113, [1033]), (1114, [1034]), (1115, [1035]), (1116, [1036]), (1117, [1037]),
     (1118, [1038]), (1119, [1039]), (1121, [1120]), (1123, [1122]), (1125, [1124]),
     (1127, [1126]), (1129, [1128]), (1131, [1130]), (1133, [1132]), (1135, [1134]),
     (1137, [1136]), (1139, [1138]), (1141, [1140]), (1143, [1142]), (1145, [1144]),
     (1147, [1146]), (1149, [1148]), (1151, [1150])]"

definition upper_0480 :: "(nat \<times> nat list) list" where
  "upper_0480 =
    [(1153, [1152]), (1163, [1162]), (1165, [1164]), (1167, [1166]), (1169, [1168]),
     (1171, [1170]), (1173, [1172]), (1175, [1174]), (1177, [1176]), (1179, [1178]),
     (1181, [1180]), (1183, [1182]), (1185, [1184]), (1187, [1186]), (1189, [1188]),
     (1191, [1190]), (1193, [1192]), (1195, [1194]), (1197, [1196]), (1199, [1198]),
     (1201, [1200]), (1203, [1202]), (1205, [1204]), (1207, [1206]), (1209, [1208]),
     (1211, [1210]), (1213, [1212]), (1215, [1214])]"

definition upper_04C0 :: "(nat \<times> nat list) list" where
  "upper_04C0 =
    [(1218, [1217]), (1220, [1219]), (1222, [1221]), (1224, [1223]), (1226, [1225]),
     (1228, [1227]), (1230, [1229]), (1231, [1216]), (1233, [1232]), (1235, [1234]),
     (1237, [1236]), (1239, [1238]), (1241, [1240]), (1243, [1242]), (1245, [1244]),
     (1247, [1246]), (1249, [1248]), (1251, [1250]), (1253, [1252]), (1255, [1254]),
     (1257, [1256]), (1259, [1258]), (1261, [1260]), (1263, [1262]), (1265, [1264]),
     (1267, [1266]), (1269, [1268]), (1271, [1270]), (1273, [1272]), (1275, [1274]),
     (1277, [1276]), (1279, [1278])]"

definition upper_0500 :: "(nat \<times> nat list) list" where
  "upper_0500 =
    [(1281, [1280]), (1283, [1282]), (1285, [1284]), (1287, [1286]), (1289, [1288]),
     (1291, [1290]), (1293, [1292]), (1295, [1294]), (1297, [1296]), (1299, [1298]),
     (1301, [1300]), (1303, [1302]), (1305, [1304]), (1307, [1306]), (1309, [1308]),
     (1311, [1310]), (1313, [1312]), (1315, [1314]), (1317, [1316]), (1319, [1318]),
     (1321, [1320]), (1323, [1322]), (1325, [1324]), (1327, [1326])]"

definition upper_0540 :: "(nat \<times> nat list) list" where
  "upper_0540 =
    [(1377, [1329]), (1378, [1330]), (1379, [1331]), (1380, [1332]), (1381, [1333]),
     (1382, [1334]), (1383, [1335]), (1384, [1336]), (1385, [1337]), (1386, [1338]),
     (1387, [1339]), (1388, [1340]), (1389, [1341]), (1390, [1342]), (1391, [1343]),
     (1392, [1344]), (1393, [1345]), (1394, [1346]), (1395, [1347]), (1396, [1348]),
     (1397, [1349]), (1398, [1350]), (1399, [1351]), (1400, [1352]), (1401, [1353]),
     (1402, [1354]), (1403, [1355]), (1404, [1356]), (1405, [1357]), (1406, [1358]),
     (1407, [1359])]"

definition upper_0580 :: "(nat \<times> nat list) list" where
  "upper_0580 =
    [(1408, [1360]), (1409, [1361]), (1410, [1362]), (1411, [1363]), (1412, [1364]),
     (1413, [1365]), (1414, [1366]), (1415, [1333, 1362])]"

definition upper_10C0 :: "(nat \<times> nat list) list" where
  "upper_10C0 =
    [(4304, [7312]), (4305, [7313]), (4306, [7314]), (4307, [7315]), (4308, [7316]),
     (4309, [7317]), (4310, [7318]), (4311, [7319]), (4312, [7320]), (4313, [7321]),
     (4314, [7322]), (4315, [7323]), (4316, [7324]), (4317, [7325]), (4318, [7326]),
     (4319, [7327]), (4320, [7328]), (4321, [7329]), (4322, [7330]), (4323, [7331]),
     (4324, [7332]), (4325, [7333]), (4326, [7334]), (4327, [7335]), (4328, [7336]),
     (4329, [7337]), (4330, [7338]), (4331, [7339]), (4332, [7340]), (4333, [7341]),
     (4334, [7342]), (4335, [7343]), (4336, [7344]), (4337, [7345]), (4338, [7346]),
     (4339, [7347]), (4340, [7348]), (4341, [7349]), (4342, [7350]), (4343, [7351]),
     (4344, [7352]), (4345, [7353]), (4346, [7354]), (4349, [7357]), (4350, [7358]),
     (4351, [7359])]"

definition upper_13C0 :: "(nat \<times> nat list) list" where
  "upper_13C0 =
    [(5112, [5104]), (5113, [5105]), (5114, [5106]), (5115, [5107]), (5116, [5108]),
     (5117, [5109])]"

definition upper_1C80 :: "(nat \<times> nat list) list" where
  "upper_1C80 =
    [(7296, [1042]), (7297, [1044]), (7298, [1054]), (7299, [1057]), (7300, [1058]),
     (7301, [1058]), (7302, [1066]), (7303, [1122]), (7304, [42570])]"

definition upper_1D40 :: "(nat \<times> nat list) list" where
  "upper_1D40 =
    [(7545, [42877]), (7549, [11363])]"

definition upper_1D80 :: "(nat \<times> nat list) list" where
  "upper_1D80 =
    [(7566, [42950])]"

definition upper_1E00 :: "(nat \<times> nat list) list" where
  "upper_1E00 =
    [(7681, [7680]), (7683, [7682]), (7685, [7684]), (7687, [7686]), (7689, [7688]),
     (7691, [7690]), (7693, [7692]), (7695, [7694]), (7697, [7696]), (7699, [7698]),
     (7701, [7700]), (7703, [7702]), (7705, [7704]), (7707, [7706]), (7709, [7708]),
     (7711, [7710]), (7713, [7712]), (7715, [7714]), (7717, [7716]), (7719, [7718]),
     (7721, [7720]), (7723, [7722]), (7725, [7724]), (7727, [7726]), (7729, [7728]),
     (7731, [7730]), (7733, [7732]), (7735, [7734]), (7737, [7736]), (7739, [7738]),
     (7741, [7740]), (7743, [7742])]"

definition upper_1E40 :: "(nat \<times> nat list) list" where
  "upper_1E40 =
    [(7745, [7744]), (7747, [7746]), (7749, [7748]), (7751, [7750]), (7753, [7752]),
     (7755, [7754]), (7757, [7756]), (7759, [7758]), (7761, [7760]), (7763, [7762]),
     (7765, [7764]), (7767, [7766]), (7769, [7768]), (7771, [7770]), (7773, [7772]),
     (7775, [7774]), (7777, [7776]), (7779, [7778]), (7781, [7780]), (7783, [7782]),
     (7785, [7784]), (7787, [7786]), (7789, [7788]), (7791, [7790]), (7793, [7792]),
     (7795, [7794]), (7797, [7796]), (7799, [7798]), (7801, [7800]), (7803, [7802]),
     (7805, [7804]), (7807, [7806])]"

definition upper_1E80 :: "(nat \<times> nat list) list" where
  "upper_1E80 =
    [(7809, [7808]), (7811, [7810]), (7813, [7812]), (7815, [7814]), (7817, [7816]),
     (7819, [7818]), (7821, [7820]), (7823, [7822]), (7825, [7824]), (7827, [7826]),
     (7829, [7828]), (7830, [72, 817]), (7831, [84, 776]), (7832, [87, 778]), (7833, [89, 778]),
     (7834, [65, 702]), (7835, [7776]), (7841, [7840]), (7843, [7842]), (7845, [7844]),
     (7847, [7846]), (7849, [7848]), (7851, [7850]), (7853, [7852]), (7855, [7854]),
     (7857, [7856]), (7859, [7858]), (7861, [7860]), (7863, [7862]), (7865, [7864]),
     (7867, [7866]), (7869, [7868]), (7871, [7870])]"

definition upper_1EC0 :: "(nat \<times> nat list) list" where
  "upper_1EC0 =
    [(7873, [7872]), (7875, [7874]), (7877, [7876]), (7879, [7878]), (7881, [7880]),
     (7883, [7882]), (7885, [7884]), (7887, [7886]), (7889, [7888]), (7891, [7890]),
     (7893, [7892]), (7895, [7894]), (7897, [7896]), (7899, [7898]), (7901, [7900]),
     (7903, [7902]), (7905, [7904]), (7907, [7906]), (7909, [7908]), (7911, [7910]),
     (7913, [7912]), (7915, [7914]), (7917, [7916]), (7919, [7918]), (7921, [7920]),
     (7923, [7922]), (7925, [7924]), (7927, [7926]), (7929, [7928]), (7931, [7930]),
     (7933, [7932]), (7935, [7934])]"

definition upper_1F00 :: "(nat \<times> nat list) list" where
  "upper_1F00 =
    [(7936, [7944]), (7937, [7945]), (7938, [7946]), (7939, [7947]), (7940, [7948]),
     (7941, [7949]), (7942, [7950]), (7943, [7951]), (7952, [7960]), (7953, [7961]),
     (7954, [7962]), (7955, [7963]), (7956, [7964]), (7957, [7965]), (7968, [7976]),
     (7969, [7977]), (7970, [7978]), (7971, [7979]), (7972, [7980]), (7973, [7981]),
     (7974, [7982]), (7975, [7983]), (7984, [7992]), (7985, [7993]), (7986, [7994]),
     (7987, [7995]), (7988, [7996]), (7989, [7997]), (7990, [7998]), (7991, [7999])]"

definition upper_1F40 :: "(nat \<times> nat list) list" where
  "upper_1F40 =
    [(8000, [8008]), (8001, [8009]), (8002, [8010]), (8003, [8011]), (8004, [8012]),
     (8005, [8013]), (8016, [933, 787]), (8017, [8025]), (8018, [933, 787, 768]),
     (8019, [8027]), (8020, [933, 787, 769]), (8021, [8029]), (8022, [933, 787, 834]),
     (8023, [8031]), (8032, [8040]), (8033, [8041]), (8034, [8042]), (8035, [8043]),
     (8036, [8044]), (8037, [8045]), (8038, [8046]), (8039, [8047]), (8048, [8122]),
     (8049, [8123]), (8050, [8136]), (8051, [8137]), (8052, [8138]), (8053, [8139]),
     (8054, [8154]), (8055, [8155]), (8056, [8184]), (8057, [8185]), (8058, [8170]),
     (8059, [8171]), (8060, [8186]), (8061, [8187])]"

definition upper_1F80 :: "(nat \<times> nat list) list" where
  "upper_1F80 =
    [(8064, [7944, 921]), (8065, [7945, 921]), (8066, [7946, 921]), (8067, [7947, 921]),
     (8068, [7948, 921]), (8069, [7949, 921]), (8070, [7950, 921]), (8071, [7951, 921]),
     (8072, [7944, 921]), (8073, [7945, 921]), (8074, [7946, 921]), (8075, [7947, 921]),
     (8076, [7948, 921]), (8077, [7949, 921]), (8078, [7950, 921]), (8079, [7951, 921]),
     (8080, [7976, 921]), (8081, [7977, 921]), (8082, [7978, 921]), (8083, [7979, 921]),
     (8084, [7980, 921]), (8085, [7981, 921]), (8086, [7982, 921]), (8087, [7983, 921]),
     (8088, [7976, 921]), (8089, [7977, 921]), (8090, [7978, 921]), (8091, [7979, 921]),
     (8092, [7980, 921]), (8093, [7981, 921]), (8094, [7982, 921]), (8095, [7983, 921]),
     (8096, [8040, 921]), (8097, [8041, 921]), (8098, [8042, 921]), (8099, [8043, 921]),
     (8100, [8044, 921]), (8101, [8045, 921]), (8102, [8046, 921]), (8103, [8047, 921]),
     (8104, [8040, 921]), (8105, [8041, 921]), (8106, [8042, 921]), (8107, [8043, 921]),
     (8108, [8044, 921]), (8109, [8045, 921]), (8110, [8046, 921]), (8111, [8047, 921]),
     (8112, [8120]), (8113, [8121]), (8114, [8122, 921]), (8115, [913, 921]),
     (8116, [902, 921]), (8118, [913, 834]), (8119, [913, 834, 921]), (8124, [913, 921]),
     (8126, [921])]"

definition upper_1FC0 :: "(nat \<times> nat list) list" where
  "upper_1FC0 =
    [(8130, [8138, 921]), (8131, [919, 921]), (8132, [905, 921]), (8134, [919, 834]),
     (8135, [919, 834, 921]), (8140, [919, 921]), (8144, [8152]), (8145, [8153]),
     (8146, [921, 776, 768]), (8147, [921, 776, 769]), (8150, [921, 834]),
     (8151, [921, 776, 834]), (8160, [8168]), (8161, [8169]), (8162, [933, 776, 768]),
     (8163, [933, 776, 769]), (8164, [929, 787]), (8165, [8172]), (8166, [933, 834]),
     (8167, [933, 776, 834]), (8178, [8186, 921]), (8179, [937, 921]), (8180, [911, 921]),
     (8182, [937, 834]), (8183, [937, 834, 921]), (8188, [937, 921])]"

definition upper_2140 :: "(nat \<times> nat list) list" where
  "upper_2140 =
    [(8526, [8498]), (8560, [8544]), (8561, [8545]), (8562, [8546]), (8563, [8547]),
     (8564, [8548]), (8565, [8549]), (8566, [8550]), (8567, [8551]), (8568, [8552]),
     (8569, [8553]), (8570, [8554]), (8571, [8555]), (8572, [8556]), (8573, [8557]),
     (8574, [8558]), (8575, [8559])]"

definition upper_2180 :: "(nat \<times> nat list) list" where
  "upper_2180 =
    [(8580, [8579])]"

definition upper_24C0 :: "(nat \<times> nat list) list" where
  "upper_24C0 =
    [(9424, [9398]), (9425, [9399]), (9426, [9400]), (9427, [9401]), (9428, [9402]),
     (9429, [9403]), (9430, [9404]), (9431, [9405]), (9432, [9406]), (9433, [9407]),
     (9434, [9408]), (9435, [9409]), (9436, [9410]), (9437, [9411]), (9438, [9412]),
     (9439, [9413]), (9440, [9414]), (9441, [9415]), (9442, [9416]), (9443, [9417]),
     (9444, [9418]), (9445, [9419]), (9446, [9420]), (9447, [9421]), (9448, [9422]),
     (9449, [9423])]"

definition upper_2C00 :: "(nat \<times> nat list) list" where
  "upper_2C00 =
    [(11312, [11264]), (11313, [11265]), (11314, [11266]), (11315, [11267]), (11316, [11268]),
     (11317, [11269]), (11318, [11270]), (11319, [11271]), (11320, [11272]), (11321, [11273]),
     (11322, [11274]), (11323, [11275]), (11324, [11276]), (11325, [11277]), (11326, [11278]),
     (11327, [11279])]"

definition upper_2C40 :: "(nat \<times> nat list) list" where
  "upper_2C40 =
    [(11328, [11280]), (11329, [11281]), (11330, [11282]), (11331, [11283]), (11332, [11284]),
     (11333, [11285]), (11334, [11286]), (11335, [11287]), (11336, [11288]), (11337, [11289]),
     (11338, [11290]), (11339, [11291]), (11340, [11292]), (11341, [11293]), (11342, [11294]),
     (11343, [11295]), (11344, [11296]), (11345, [11297]), (11346, [11298]), (11347, [11299]),
     (11348, [11300]), (11349, [11301]), (11350, [11302]), (11351, [11303]), (11352, [11304]),
     (11353, [11305]), (11354, [11306]), (11355, [11307]), (11356, [11308]), (11357, [11309]),
     (11358, [11310]), (11359, [11311]), (11361, [11360]), (11365, [570]), (11366, [574]),
     (11368, [11367]), (11370, [11369]), (11372, [11371]), (11379, [11378]), (11382, [11381])]"

definition upper_2C80 :: "(nat \<times> nat list) list" where
  "upper_2C80 =
    [(11393, [11392]), (11395, [11394]), (11397, [11396]), (11399, [11398]), (11401, [11400]),
     (11403, [11402]), (11405, [11404]), (11407, [11406]), (11409, [11408]), (11411, [11410]),
     (11413, [11412]), (11415, [11414]), (11417, [11416]), (11419, [11418]), (11421, [11420]),
     (11423, [11422]), (11425, [11424]), (11427, [11426]), (11429, [11428]), (11431, [11430]),
     (11433, [11432]), (11435, [11434]), (11437, [11436]), (11439, [11438]), (11441, [11440]),
     (11443, [11442]), (11445, [11444]), (11447, [11446]), (11449, [11448]), (11451, [11450]),
     (11453, [11452]), (11455, [11454])]"

definition upper_2CC0 :: "(nat \<times> nat list) list" where
  "upper_2CC0 =
    [(11457, [11456]), (11459, [11458]), (11461, [11460]), (11463, [11462]), (11465, [11464]),
     (11467, [11466]), (11469, [11468]), (11471, [11470]), (11473, [11472]), (11475, [11474]),
     (11477, [11476]), (11479, [11478]), (11481, [11480]), (11483, [11482]), (11485, [11484]),
     (11487, [11486]), (11489, [11488]), (11491, [11490]), (11500, [11499]), (11502, [11501]),
     (11507, [11506])]"

definition upper_2D00 :: "(nat \<times> nat list) list" where
  "upper_2D00 =
    [(11520, [4256]), (11521, [4257]), (11522, [4258]), (11523, [4259]), (11524, [4260]),
     (11525, [4261]), (11526, [4262]), (11527, [4263]), (11528, [4264]), (11529, [4265]),
     (11530, [4266]), (11531, [4267]), (11532, [4268]), (11533, [4269]), (11534, [4270]),
     (11535, [4271]), (11536, [4272]), (11537, [4273]), (11538, [4274]), (11539, [4275]),
     (11540, [4276]), (11541, [4277]), (11542, [4278]), (11543, [4279]), (11544, [4280]),
     (11545, [4281]), (11546, [4282]), (11547, [4283]), (11548, [4284]), (11549, [4285]),
     (11550, [4286]), (11551, [4287]), (11552, [4288]), (11553, [4289]), (11554, [4290]),
     (11555, [4291]), (11556, [4292]), (11557, [4293]), (11559, [4295]), (11565, [4301])]"

definition upper_A640 :: "(nat \<times> nat list) list" where
  "upper_A640 =
    [(42561, [42560]), (42563, [42562]), (42565, [42564]), (42567, [42566]), (42569, [42568]),
     (42571, [42570]), (42573, [42572]), (42575, [42574]), (42577, [42576]), (42579, [42578]),
     (42581, [42580]), (42583, [42582]), (42585, [42584]), (42587, [42586]), (42589, [42588]),
     (42591, [42590]), (42593, [42592]), (42595, [42594]), (42597, [42596]), (42599, [42598]),
     (42601, [42600]), (42603, [42602]), (42605, [42604])]"

definition upper_A680 :: "(nat \<times> nat list) list" where
  "upper_A680 =
    [(42625, [42624]), (42627, [42626]), (42629, [42628]), (42631, [42630]), (42633, [42632]),
     (42635, [42634]), (42637, [42636]), (42639, [42638]), (42641, [42640]), (42643, [42642]),
     (42645, [42644]), (42647, [42646]), (42649, [42648]), (42651, [42650])]"

definition upper_A700 :: "(nat \<times> nat list) list" where
  "upper_A700 =
    [(42787, [42786]), (42789, [42788]), (42791, [42790]), (42793, [42792]), (42795, [42794]),
     (42797, [42796]), (42799, [42798]), (42803, [42802]), (42805, [42804]), (42807, [42806]),
     (42809, [42808]), (42811, [42810]), (42813, [42812]), (42815, [42814])]"

definition upper_A740 :: "(nat \<times> nat list) list" where
  "upper_A740 =
    [(42817, [42816]), (42819, [42818]), (42821, [42820]), (42823, [42822]), (42825, [42824]),
     (42827, [42826]), (42829, [42828]), (42831, [42830]), (42833, [42832]), (42835, [42834]),
     (42837, [42836]), (42839, [42838]), (42841, [42840]), (42843, [42842]), (42845, [42844]),
     (42847, [42846]), (42849, [42848]), (42851, [42850]), (42853, [42852]), (42855, [42854]),
     (42857, [42856]), (42859, [42858]), (42861, [42860]), (42863, [42862]), (42874, [42873]),
     (42876, [42875]), (42879, [42878])]"

definition upper_A780 :: "(nat \<times> nat list) list" where
  "upper_A780 =
    [(42881, [42880]), (42883, [42882]), (42885, [42884]), (42887, [42886]), (42892, [42891]),
     (42897, [42896]), (42899, [42898]), (42900, [42948]), (42903, [42902]), (42905, [42904]),
     (42907, [42906]), (42909, [42908]), (42911, [42910]), (42913, [42912]), (42915, [42914]),
     (42917, [42916]), (42919, [42918]), (42921, [42920]), (42933, [42932]), (42935, [42934]),
     (42937, [42936]), (42939, [42938]), (42941, [42940]), (42943, [42942])]"

definition upper_A7C0 :: "(nat \<times> nat list) list" where
  "upper_A7C0 =
    [(42945, [42944]), (42947, [42946]), (42952, [42951]), (42954, [42953]), (42961, [42960]),
     (42967, [42966]), (42969, [42968]), (42998, [42997])]"

definition upper_AB40 :: "(nat \<times> nat list) list" where
  "upper_AB40 =
    [(43859, [42931]), (43888, [5024]), (43889, [5025]), (43890, [5026]), (43891, [5027]),
     (43892, [5028]), (43893, [5029]), (43894, [5030]), (43895, [5031]), (43896, [5032]),
     (43897, [5033]), (43898, [5034]), (43899, [5035]), (43900, [5036]), (43901, [5037]),
     (43902, [5038]), (43903, [5039])]"

definition upper_AB80 :: "(nat \<times> nat list) list" where
  "upper_AB80 =
    [(43904, [5040]), (43905, [5041]), (43906, [5042]), (43907, [5043]), (43908, [5044]),
     (43909, [5045]), (43910, [5046]), (43911, [5047]), (43912, [5048]), (43913, [5049]),
     (43914, [5050]), (43915, [5051]), (43916, [5052]), (43917, [5053]), (43918, [5054]),
     (43919, [5055]), (43920, [5056]), (43921, [5057]), (43922, [5058]), (43923, [5059]),
     (43924, [5060]), (43925, [5061]), (43926, [5062]), (43927, [5063]), (43928, [5064]),
     (43929, [5065]), (43930, [5066]), (43931, [5067]), (43932, [5068]), (43933, [5069]),
     (43934, [5070]), (43935, [5071]), (43936, [5072]), (43937, [5073]), (43938, [5074]),
     (43939, [5075]), (43940, [5076]), (43941, [5077]), (43942, [5078]), (43943, [5079]),
     (43944, [5080]), (43945, [5081]), (43946, [5082]), (43947, [5083]), (43948, [5084]),
     (43949, [5085]), (43950, [5086]), (43951, [5087]), (43952, [5088]), (43953, [5089]),
     (43954, [5090]), (43955, [5091]), (43956, [5092]), (43957, [5093]), (43958, [5094]),
     (43959, [5095]), (43960, [5096]), (43961, [5097]), (43962, [5098]), (43963, [5099]),
     (43964, [5100]), (43965, [5101]), (43966, [5102]), (43967, [5103])]"

definition upper_FB00 :: "(nat \<times> nat list) list" where
  "upper_FB00 =
    [(64256, [70, 70]), (64257, [70, 73]), (64258, [70, 76]), (64259, [70, 70, 73]),
     (64260, [70, 70, 76]), (64261, [83, 84]), (64262, [83, 84]), (64275, [1348, 1350]),
     (64276, [1348, 1333]), (64277, [1348, 1339]), (64278, [1358, 1350]), (64279, [1348, 1341])]"

definition upper_FF40 :: "(nat \<times> nat list) list" where
  "upper_FF40 =
    [(65345, [65313]), (65346, [65314]), (65347, [65315]), (65348, [65316]), (65349, [65317]),
     (65350, [65318]), (65351, [65319]), (65352, [65320]), (65353, [65321]), (65354, [65322]),
     (65355, [65323]), (65356, [65324]), (65357, [65325]), (65358, [65326]), (65359, [65327]),
     (65360, [65328]), (65361, [65329]), (65362, [65330]), (65363, [65331]), (65364, [65332]),
     (65365, [65333]), (65366, [65334]), (65367, [65335]), (65368, [65336]), (65369, [65337]),
     (65370, [65338])]"

definition upper_10400 :: "(nat \<times> nat list) list" where
  "upper_10400 =
    [(66600, [66560]), (66601, [66561]), (66602, [66562]), (66603, [66563]), (66604, [66564]),
     (66605, [66565]), (66606, [66566]), (66607, [66567]), (66608, [66568]), (66609, [66569]),
     (66610, [66570]), (66611, [66571]), (66612, [66572]), (66613, [66573]), (66614, [66574]),
     (66615, [66575]), (66616, [66576]), (66617, [66577]), (66618, [66578]), (66619, [66579]),
     (66620, [66580]), (66621, [66581]), (66622, [66582]), (66623, [66583])]"

definition upper_10440 :: "(nat \<times> nat list) list" where
  "upper_10440 =
    [(66624, [66584]), (66625, [66585]), (66626, [66586]), (66627, [66587]), (66628, [66588]),
     (66629, [66589]), (66630, [66590]), (66631, [66591]), (66632, [66592]), (66633, [66593]),
     (66634, [66594]), (66635, [66595]), (66636, [66596]), (66637, [66597]), (66638, [66598]),
     (66639, [66599])]"

definition upper_104C0 :: "(nat \<times> nat list) list" where
  "upper_104C0 =
    [(66776, [66736]), (66777, [66737]), (66778, [66738]), (66779, [66739]), (66780, [66740]),
     (66781, [66741]), (66782, [66742]), (66783, [66743]), (66784, [66744]), (66785, [66745]),
     (66786, [66746]), (66787, [66747]), (66788, [66748]), (66789, [66749]), (66790, [66750]),
     (66791, [66751]), (66792, [66752]), (66793, [66753]), (66794, [66754]), (66795, [66755]),
     (66796, [66756]), (66797, [66757]), (66798, [66758]), (66799, [66759]), (66800, [66760]),
     (66801, [66761]), (66802, [66762]), (66803, [66763]), (66804, [66764]), (66805, [66765]),
     (66806, [66766]), (66807, [66767]), (66808, [66768]), (66809, [66769]), (66810, [66770]),
     (66811, [66771])]"

definition upper_10580 :: "(nat \<times> nat list) list" where
  "upper_10580 =
    [(66967, [66928]), (66968, [66929]), (66969, [66930]), (66970, [66931]), (66971, [66932]),
     (66972, [66933]), (66973, [66934]), (66974, [66935]), (66975, [66936]), (66976, [66937]),
     (66977, [66938]), (66979, [66940]), (66980, [66941]), (66981, [66942]), (66982, [66943]),
     (66983, [66944]), (66984, [66945]), (66985, [66946]), (66986, [66947]), (66987, [66948]),
     (66988, [66949]), (66989, [66950]), (66990, [66951]), (66991, [66952]), (66992, [66953]),
     (66993, [66954]), (66995, [66956]), (66996, [66957]), (66997, [66958]), (66998, [66959]),
     (66999, [66960]), (67000, [66961]), (67001, [66962]), (67003, [66964]), (67004, [66965])]"

definition upper_10CC0 :: "(nat \<times> nat list) list" where
  "upper_10CC0 =
    [(68800, [68736]), (68801, [68737]), (68802, [68738]), (68803, [68739]), (68804, [68740]),
     (68805, [68741]), (68806, [68742]), (68807, [68743]), (68808, [68744]), (68809, [68745]),
     (68810, [68746]), (68811, [68747]), (68812, [68748]), (68813, [68749]), (68814, [68750]),
     (68815, [68751]), (68816, [68752]), (68817, [68753]), (68818, [68754]), (68819, [68755]),
     (68820, [68756]), (68821, [68757]), (68822, [68758]), (68823, [68759]), (68824, [68760]),
     (68825, [68761]), (68826, [68762]), (68827, [68763]), (68828, [68764]), (68829, [68765]),
     (68830, [68766]), (68831, [68767]), (68832, [68768]), (68833, [68769]), (68834, [68770]),
     (68835, [68771]), (68836, [68772]), (68837, [68773]), (68838, [68774]), (68839, [68775]),
     (68840, [68776]), (68841, [68777]), (68842, [68778]), (68843, [68779]), (68844, [68780]),
     (68845, [68781]), (68846, [68782]), (68847, [68783]), (68848, [68784]), (68849, [68785]),
     (68850, [68786])]"

definition upper_118C0 :: "(nat \<times> nat list) list" where
  "upper_118C0 =
    [(71872, [71840]), (71873, [71841]), (71874, [71842]), (71875, [71843]), (71876, [71844]),
     (71877, [71845]), (71878, [71846]), (71879, [71847]), (71880, [71848]), (71881, [71849]),
     (71882, [71850]), (71883, [71851]), (71884, [71852]), (71885, [71853]), (71886, [71854]),
     (71887, [71855]), (71888, [71856]), (71889, [71857]), (71890, [71858]), (71891, [71859]),
     (71892, [71860]), (71893, [71861]), (71894, [71862]), (71895, [71863]), (71896, [71864]),
     (71897, [71865]), (71898, [71866]), (71899, [71867]), (71900, [71868]), (71901, [71869]),
     (71902, [71870]), (71903, [71871])]"

definition upper_16E40 :: "(nat \<times> nat list) list" where
  "upper_16E40 =
    [(93792, [93760]), (93793, [93761]), (93794, [93762]), (93795, [93763]), (93796, [93764]),
     (93797, [93765]), (93798, [93766]), (93799, [93767]), (93800, [93768]), (93801, [93769]),
     (93802, [93770]), (93803, [93771]), (93804, [93772]), (93805, [93773]), (93806, [93774]),
     (93807, [93775]), (93808, [93776]), (93809, [93777]), (93810, [93778]), (93811, [93779]),
     (93812, [93780]), (93813, [93781]), (93814, [93782]), (93815, [93783]), (93816, [93784]),
     (93817, [93785]), (93818, [93786]), (93819, [93787]), (93820, [93788]), (93821, [93789]),
     (93822, [93790]), (93823, [93791])]"

definition upper_1E900 :: "(nat \<times> nat list) list" where
  "upper_1E900 =
    [(125218, [125184]), (125219, [125185]), (125220, [125186]), (125221, [125187]),
     (125222, [125188]), (125223, [125189]), (125224, [125190]), (125225, [125191]),
     (125226, [125192]), (125227, [125193]), (125228, [125194]), (125229, [125195]),
     (125230, [125196]), (125231, [125197]), (125232, [125198]), (125233, [125199]),
     (125234, [125200]), (125235, [125201]), (125236, [125202]), (125237, [125203]),
     (125238, [125204]), (125239, [125205]), (125240, [125206]), (125241, [125207]),
     (125242, [125208]), (125243, [125209]), (125244, [125210]), (125245, [125211]),
     (125246, [125212]), (125247, [125213])]"

definition upper_1E940 :: "(nat \<times> nat list) list" where
  "upper_1E940 =
    [(125248, [125214]), (125249, [125215]), (125250, [125216]), (125251, [125217])]"

definition upper_blocks :: "(nat \<times> nat \<times> (nat \<times> nat list) list) list" where
  "upper_blocks =
    [(64, 128, upper_0040),
     (128, 192, upper_0080),
     (192, 256, upper_00C0),
     (256, 320, upper_0100),
     (320, 384, upper_0140),
     (384, 448, upper_0180),
     (448, 512, upper_01C0),
     (512, 576, upper_0200),
     (576, 640, upper_0240),
     (640, 704, upper_0280),
     (832, 896, upper_0340),
     (896, 960, upper_0380),
     (960, 1024, upper_03C0),
     (1024, 1088, upper_0400),
     (1088, 1152, upper_0440),
     (1152, 1216, upper_0480),
     (1216, 1280, upper_04C0),
     (1280, 1344, upper_0500),
     (1344, 1408, upper_0540),
     (1408, 1472, upper_0580),
     (4288, 4352, upper_10C0),
     (5056, 5120, upper_13C0),
     (7296, 7360, upper_1C80),
     (7488, 7552, upper_1D40),
     (7552, 7616, upper_1D80),
     (7680, 7744, upper_1E00),
     (7744, 7808, upper_1E40),
     (7808, 7872, upper_1E80),
     (7872, 7936, upper_1EC0),
     (7936, 8000, upper_1F00),
     (8000, 8064, upper_1F40),
     (8064, 8128, upper_1F80),
     (8128, 8192, upper_1FC0),
     (8512, 8576, upper_2140),
     (8576, 8640, upper_2180),
     (9408, 9472, upper_24C0),
     (11264, 11328, upper_2C00),
     (11328, 11392, upper_2C40),
     (11392, 11456, upper_2C80),
     (11456, 11520, upper_2CC0),
     (11520, 11584, upper_2D00),
     (42560, 42624, upper_A640),
     (42624, 42688, upper_A680),
     (42752, 42816, upper_A700),
     (42816, 42880, upper_A740),
     (42880, 42944, upper_A780),
     (42944, 43008, upper_A7C0),
     (43840, 43904, upper_AB40),
     (43904, 43968, upper_AB80),
     (64256, 64320, upper_FB00),
     (65344, 65408, upper_FF40),
     (66560, 66624, upper_10400),
     (66624, 66688, upper_10440),
     (66752, 66816, upper_104C0),
     (66944, 67008, upper_10580),
     (68800, 68864, upper_10CC0),
     (71872, 71936, upper_118C0),
     (93760, 93824, upper_16E40),
     (125184, 125248, upper_1E900),
     (125248, 125312, upper_1E940)]"

text \<open>The entries of the block that holds the code point \<open>c\<close>.\<close>

fun block_of :: "(nat \<times> nat \<times> 'a list) list \<Rightarrow> nat \<Rightarrow> 'a list" where
  "block_of [] c = []"
| "block_of ((lo, hi, es) # bs) c =
     (if c < lo then [] else if c < hi then es else block_of bs c)"

definition upper_cp :: "codepoint \<Rightarrow> pystr" where
  "upper_cp c = (case map_of (block_of upper_blocks c) c of None \<Rightarrow> [c] | Some r \<Rightarrow> r)"

text \<open>\<open>str.upper()\<close>\<close>

definition upper :: "pystr \<Rightarrow> pystr" where
  "upper s = concat (map upper_cp s)"

text \<open>
  Two spellings of the lookup in an association list, used to evaluate the table: the
  simplifier is told to evaluate the list argument of \<open>find_in\<close> and to leave that of
  \<open>alookup\<close> alone. A code point passes \<open>upper_ok\<close> when it lies above the hyphen and
  the table has no entry for it; a pair passes \<open>upper_entry\<close> when the table maps its
  first component to the second and every code point of the second passes \<open>upper_ok\<close>.
\<close>

fun alookup :: "(nat \<times> 'a) list \<Rightarrow> nat \<Rightarrow> 'a option" where
  "alookup [] c = None"
| "alookup ((k, r) # es) c = (if k = c then Some r else alookup es c)"

definition find_in :: "(nat \<times> 'a) list \<Rightarrow> nat \<Rightarrow> 'a option" where
  "find_in = alookup"

definition upper_ok :: "codepoint \<Rightarrow> bool" where
  "upper_ok d = (45 < d \<and> find_in (block_of upper_blocks d) d = None)"

definition upper_entry :: "codepoint \<Rightarrow> pystr \<Rightarrow> bool" where
  "upper_entry k r = (find_in (block_of upper_blocks k) k = Some r \<and> list_all upper_ok r)"

text \<open>
  \<open>s.replace(old, new)\<close>: every non-overlapping occurrence of \<open>old\<close>, scanning from
  the left, becomes \<open>new\<close>; an empty \<open>old\<close> matches before every character and at the
  end.
\<close>

function replace :: "'a list \<Rightarrow> 'a list \<Rightarrow> 'a list \<Rightarrow> 'a list" where
  "replace s old new =
     (if old = [] then new @ concat (map (\<lambda>c. c # new) s)
      else if s = [] then []
      else if take (length old) s = old then new @ replace (drop (length old) s) old new
      else hd s # replace (tl s) old new)"
  by pat_completeness auto
termination
  by (relation "measure (\<lambda>(s, old, new). length s)") auto

declare replace.simps [simp del]

text \<open>
  \<open>str(n)\<close> for a non-negative integer. Text that the source builds from its own
  literals and from numbers (fine types, error messages) is a \<open>string\<close>.
\<close>

fun str_nat :: "nat \<Rightarrow> string" where
  "str_nat n =
     (if n < 10 then [char_of (48 + n)]
      else str_nat (n div 10) @ [char_of (48 + n mod 10)])"

declare str_nat.simps [simp del]

subsection \<open>\<open>app/config.py\<close>\<close>

record Settings =
  cache_cooldown_min :: int
  ocr_confidence_min :: real
  external_api_timeout :: int
  road_tax_fine_amount :: real
  insurance_fine_amount :: real

text \<open>The defaults of the class \<open>Settings\<close>.\<close>

definition default_settings :: Settings where
  "default_settings =
     \<lparr> cache_cooldown_min = 5,
       ocr_confidence_min = 0.5,
       external_api_timeout = 10,
       road_tax_fine_amount = 150,
       insurance_fine_amount = 300 \<rparr>"

subsection \<open>\<open>app/models/schemas.py\<close>\<close>

datatype ComplianceStatus = COMPLIANT | TAX_EXPIRED | INSURANCE_EXPIRED | BOTH_EXPIRED

record VehicleStatus =
  vs_plate_number :: pystr
  vs_owner_name :: "pystr option"
  vs_owner_id :: "pystr option"
  road_tax_valid :: bool
  road_tax_expiry :: "datetime option"
  insurance_valid :: bool
  insurance_expiry :: "datetime option"

definition is_compliant :: "VehicleStatus \<Rightarrow> bool" where
  "is_compliant v = (road_tax_valid v \<and> insurance_valid v)"

definition compliance_status :: "VehicleStatus \<Rightarrow> ComplianceStatus" where
  "compliance_status v =
     (if road_tax_valid v \<and> insurance_valid v then COMPLIANT
      else if \<not> road_tax_valid v \<and> \<not> insurance_valid v then BOTH_EXPIRED
      else if \<not> road_tax_valid v then TAX_EXPIRED
      else INSURANCE_EXPIRED)"

record ScanResult =
  sr_plate_number :: pystr
  sr_confidence :: real
  cached :: bool
  vehicle_status :: "VehicleStatus option"
  fine_issued :: bool
  sr_fine_amount :: "real option"
  error :: "string option"

record FineRecord =
  fr_id :: "nat option"
  fr_plate_number :: pystr
  fr_owner_name :: "pystr option"
  fr_owner_id :: "pystr option"
  fr_fine_type :: string
  fr_fine_amount :: real
  fr_issued_at :: datetime
  fr_paid :: bool

record CacheStats =
  total_entries :: nat
  active_entries :: nat
  expired_entries :: nat
  cs_hit_count :: nat
  cs_miss_count :: nat
  hit_rate :: real

subsection \<open>\<open>app/services/plate_cache.py\<close>\<close>

record CacheEntry =
  ce_plate_number :: pystr
  ce_result :: VehicleStatus
  ce_timestamp :: datetime

text \<open>\<open>CacheEntry.is_expired\<close>; \<open>now\<close> is the reading of \<open>datetime.now()\<close>.\<close>

definition is_expired :: "CacheEntry \<Rightarrow> timedelta \<Rightarrow> datetime \<Rightarrow> bool" where
  "is_expired entry cooldown now = (now - ce_timestamp entry > cooldown)"

record PlateCache =
  cooldown :: timedelta
  cache :: "(pystr \<times> CacheEntry) list"
  hit_count :: nat
  miss_count :: nat

text \<open>\<open>timedelta(minutes=m)\<close>\<close>

definition minutes :: "int \<Rightarrow> timedelta" where
  "minutes m = m * 60000000"

text \<open>
  \<open>PlateCache.__init__\<close>. \<open>cooldown_minutes or settings.cache_cooldown_min\<close> takes the
  setting when the argument is \<open>None\<close> or zero.
\<close>

definition PlateCache_init :: "Settings \<Rightarrow> int option \<Rightarrow> PlateCache" where
  "PlateCache_init settings cooldown_minutes =
     \<lparr> cooldown = minutes (case cooldown_minutes of
                               None \<Rightarrow> cache_cooldown_min settings
                             | Some m \<Rightarrow> if m = 0 then cache_cooldown_min settings else m),
       cache = [],
       hit_count = 0,
       miss_count = 0 \<rparr>"

definition normalize_plate :: "pystr \<Rightarrow> pystr" where
  "normalize_plate plate_number =
     replace (replace (upper plate_number) (ascii '' '') (ascii '''')) (ascii ''-'') (ascii '''')"

definition is_recently_scanned :: "PlateCache \<Rightarrow> datetime \<Rightarrow> pystr \<Rightarrow> bool \<times> PlateCache" where
  "is_recently_scanned pc now plate_number =
     (let normalized = normalize_plate plate_number in
      case map_of (cache pc) normalized of
        Some entry \<Rightarrow>
          if \<not> is_expired entry (cooldown pc) now then (True, pc)
          else (False, pc\<lparr>cache := AList.delete normalized (cache pc)\<rparr>)
      | None \<Rightarrow> (False, pc))"

definition get_cached_result ::
  "PlateCache \<Rightarrow> datetime \<Rightarrow> pystr \<Rightarrow> VehicleStatus option \<times> PlateCache" where
  "get_cached_result pc now plate_number =
     (let normalized = normalize_plate plate_number in
      case map_of (cache pc) normalized of
        Some entry \<Rightarrow>
          if \<not> is_expired entry (cooldown pc) now
          then (Some (ce_result entry), pc\<lparr>hit_count := hit_count pc + 1\<rparr>)
          else (None, pc\<lparr>cache := AList.delete normalized (cache pc),
                         miss_count := miss_count pc + 1\<rparr>)
      | None \<Rightarrow> (None, pc\<lparr>miss_count := miss_count pc + 1\<rparr>))"

definition add_plate :: "PlateCache \<Rightarrow> datetime \<Rightarrow> pystr \<Rightarrow> VehicleStatus \<Rightarrow> PlateCache" where
  "add_plate pc now plate_number result =
     (let normalized = normalize_plate plate_number in
      pc\<lparr>cache := AList.update normalized
                     \<lparr> ce_plate_number = normalized, ce_result = result, ce_timestamp = now \<rparr>
                     (cache pc)\<rparr>)"

definition cleanup_expired :: "PlateCache \<Rightarrow> datetime \<Rightarrow> nat \<times> PlateCache" where
  "cleanup_expired pc now =
     (let expired_keys = map fst (filter (\<lambda>(key, entry). is_expired entry (cooldown pc) now)
                                         (cache pc))
      in (length expired_keys,
          pc\<lparr>cache := fold AList.delete expired_keys (cache pc)\<rparr>))"

definition clear :: "PlateCache \<Rightarrow> PlateCache" where
  "clear pc = pc\<lparr>cache := [], hit_count := 0, miss_count := 0\<rparr>"

definition get_stats :: "PlateCache \<Rightarrow> datetime \<Rightarrow> CacheStats" where
  "get_stats pc now =
     (let total = length (cache pc);
          expired = length (filter (\<lambda>entry. is_expired entry (cooldown pc) now)
                                   (map snd (cache pc)));
          active = total - expired;
          total_requests = hit_count pc + miss_count pc;
          rate = (if total_requests > 0 then real (hit_count pc) / real total_requests else 0)
      in \<lparr> total_entries = total,
           active_entries = active,
           expired_entries = expired,
           cs_hit_count = hit_count pc,
           cs_miss_count = miss_count pc,
           hit_rate = rate \<rparr>)"

text \<open>
  The states a cache instance can be in: it starts empty and changes only through its
  own methods. \<open>get_or_fetch\<close> and \<open>get_or_fetch_async\<close> are a lookup followed by an
  insert, and \<open>get_stats\<close> changes nothing.
\<close>

inductive reachable :: "PlateCache \<Rightarrow> bool" where
  r_init: "reachable (PlateCache_init settings cooldown_minutes)"
| r_recent: "reachable pc \<Longrightarrow> reachable (snd (is_recently_scanned pc now plate_number))"
| r_lookup: "reachable pc \<Longrightarrow> reachable (snd (get_cached_result pc now plate_number))"
| r_add: "reachable pc \<Longrightarrow> reachable (add_plate pc now plate_number result)"
| r_cleanup: "reachable pc \<Longrightarrow> reachable (snd (cleanup_expired pc now))"
| r_clear: "reachable pc \<Longrightarrow> reachable (clear pc)"

text \<open>
  The invariant of the dictionary: no key occurs twice, every key is a normalized plate
  and every entry records its own key.
\<close>

definition cache_inv :: "(pystr \<times> CacheEntry) list \<Rightarrow> bool" where
  "cache_inv al =
     (distinct (map fst al)
      \<and> list_all (\<lambda>(k, e). normalize_plate k = k \<and> ce_plate_number e = k) al)"

subsection \<open>\<open>app/services/validation_api.py\<close>\<close>

text \<open>
  The JSON object of a 200 response: each key of the source's \<open>data.get\<close> calls may be
  absent. A 200 response whose body is not such an object (not JSON, or a value of the
  wrong type) is outside the model.
\<close>

record api_data =
  d_owner_name :: "pystr option"
  d_owner_id :: "pystr option"
  d_road_tax_valid :: "bool option"
  d_road_tax_expiry :: "datetime option"
  d_insurance_valid :: "bool option"
  d_insurance_expiry :: "datetime option"

text \<open>
  What \<open>client.get\<close> does: it returns a response with a status code and a body, or it
  raises \<open>httpx.RequestError\<close> (connection failures and timeouts are its subclasses).
\<close>

datatype http_outcome = Response nat api_data | RequestError string

text \<open>
  The values \<open>_get_mock_status\<close> draws from \<open>random\<close> after seeding it: two calls of
  \<open>random.random()\<close> and two of \<open>random.randint\<close>. The generator itself is not
  modelled; its draws are inputs.
\<close>

record mock_draws =
  tax_draw :: real
  insurance_draw :: real
  tax_days :: int
  insurance_days :: int

definition days :: "int \<Rightarrow> timedelta" where
  "days n = n * 86400000000"

definition mock_names :: "string list" where
  "mock_names =
     [''Ahmad bin Abdullah'', ''Tan Wei Ming'', ''Siti Nurhaliza'',
      ''Raj Kumar'', ''Lee Chong Wei'', ''Maria Gonzales'',
      ''Wong Kar Wai'', ''Fatimah binti Hassan'', ''Chen Xiaoming'']"

definition get_mock_status :: "pystr \<Rightarrow> datetime \<Rightarrow> mock_draws \<Rightarrow> VehicleStatus" where
  "get_mock_status plate_number now rnd =
     (let seed = sum_list plate_number;
          is_tax_valid = (tax_draw rnd < 0.6);
          is_insurance_valid = (insurance_draw rnd < 0.7);
          mock_name = ascii (mock_names ! (seed mod length mock_names));
          mock_id = ascii (concat (map (\<lambda>i. str_nat ((seed * 7 + i) mod 10)) [0..<12]));
          tax_expiry = (if is_tax_valid then now + days (tax_days rnd)
                        else now - days (tax_days rnd));
          ins_expiry = (if is_insurance_valid then now + days (insurance_days rnd)
                        else now - days (insurance_days rnd))
      in \<lparr> vs_plate_number = plate_number,
           vs_owner_name = Some mock_name,
           vs_owner_id = Some mock_id,
           road_tax_valid = is_tax_valid,
           road_tax_expiry = Some tax_expiry,
           insurance_valid = is_insurance_valid,
           insurance_expiry = Some ins_expiry \<rparr>)"

text \<open>
  \<open>ValidationAPIClient.check_vehicle\<close>. \<open>Inl\<close> carries the message of the exception
  that leaves the method; the \<open>except httpx.RequestError\<close> clause turns a request error
  into the mock status.
\<close>

definition check_vehicle ::
  "pystr \<Rightarrow> http_outcome \<Rightarrow> datetime \<Rightarrow> mock_draws \<Rightarrow> string + VehicleStatus" where
  "check_vehicle plate_number outcome now rnd =
     (case outcome of
        Response status_code data \<Rightarrow>
          if status_code = 200 then
            Inr \<lparr> vs_plate_number = plate_number,
                  vs_owner_name = d_owner_name data,
                  vs_owner_id = d_owner_id data,
                  road_tax_valid = (case d_road_tax_valid data of None \<Rightarrow> True | Some b \<Rightarrow> b),
                  road_tax_expiry = d_road_tax_expiry data,
                  insurance_valid = (case d_insurance_valid data of None \<Rightarrow> True | Some b \<Rightarrow> b),
                  insurance_expiry = d_insurance_expiry data \<rparr>
          else if status_code = 404 then
            Inr \<lparr> vs_plate_number = plate_number,
                  vs_owner_name = None,
                  vs_owner_id = None,
                  road_tax_valid = True,
                  road_tax_expiry = None,
                  insurance_valid = True,
                  insurance_expiry = None \<rparr>
          else Inl (''API returned status '' @ str_nat status_code)
      | RequestError e \<Rightarrow> Inr (get_mock_status plate_number now rnd))"

subsection \<open>\<open>app/models/database.py\<close>\<close>

record Fine =
  f_id :: nat
  f_plate_number :: pystr
  f_owner_name :: "pystr option"
  f_owner_id :: "pystr option"
  f_fine_type :: string
  f_fine_amount :: real
  f_issued_at :: datetime
  f_paid :: bool
  f_paid_at :: "datetime option"

record ScanLog =
  sl_id :: nat
  sl_plate_number :: pystr
  sl_scanned_at :: datetime
  sl_confidence :: real
  sl_road_tax_valid :: "bool option"
  sl_insurance_valid :: "bool option"
  sl_fine_issued :: bool
  sl_cached_result :: bool

text \<open>
  Everything the pipeline writes to: the shared cache, the two tables, and the fines
  posted to the external system by \<open>notify_fine\<close> (plate, amount, type).
\<close>

record World =
  plate_cache :: PlateCache
  fines :: "Fine list"
  scan_logs :: "ScanLog list"
  notified :: "(pystr \<times> real \<times> string) list"

subsection \<open>\<open>app/services/fine_service.py\<close>\<close>

record FineService =
  road_tax_fine :: real
  insurance_fine :: real

definition FineService_init :: "Settings \<Rightarrow> FineService" where
  "FineService_init settings =
     \<lparr> road_tax_fine = road_tax_fine_amount settings,
       insurance_fine = insurance_fine_amount settings \<rparr>"

definition calculate_fine :: "FineService \<Rightarrow> VehicleStatus \<Rightarrow> real \<times> string" where
  "calculate_fine svc v =
     (let status = compliance_status v in
      if status = BOTH_EXPIRED then (road_tax_fine svc + insurance_fine svc, ''both'')
      else if status = TAX_EXPIRED then (road_tax_fine svc, ''road_tax'')
      else if status = INSURANCE_EXPIRED then (insurance_fine svc, ''insurance'')
      else (0, ''none''))"

text \<open>
  \<open>FineService.issue_fine\<close>. The fine row and the scan-log row are committed together;
  the primary key of a new row is one more than the number of rows of its table (no row
  is ever deleted). \<open>t_issued\<close> and \<open>t_scanned\<close> are the two clock readings.
\<close>

definition issue_fine ::
  "FineService \<Rightarrow> World \<Rightarrow> VehicleStatus \<Rightarrow> real \<Rightarrow> datetime \<Rightarrow> datetime
     \<Rightarrow> FineRecord option \<times> World" where
  "issue_fine svc w v confidence t_issued t_scanned =
     (if is_compliant v then (None, w)
      else
        let (fine_amount, fine_type) = calculate_fine svc v in
        if fine_amount = 0 then (None, w)
        else
          let fine = \<lparr> f_id = length (fines w) + 1,
                       f_plate_number = vs_plate_number v,
                       f_owner_name = vs_owner_name v,
                       f_owner_id = vs_owner_id v,
                       f_fine_type = fine_type,
                       f_fine_amount = fine_amount,
                       f_issued_at = t_issued,
                       f_paid = False,
                       f_paid_at = None \<rparr>;
              scan_log = \<lparr> sl_id = length (scan_logs w) + 1,
                           sl_plate_number = vs_plate_number v,
                           sl_scanned_at = t_scanned,
                           sl_confidence = confidence,
                           sl_road_tax_valid = Some (road_tax_valid v),
                           sl_insurance_valid = Some (insurance_valid v),
                           sl_fine_issued = True,
                           sl_cached_result = False \<rparr>
          in (Some \<lparr> fr_id = Some (f_id fine),
                     fr_plate_number = f_plate_number fine,
                     fr_owner_name = f_owner_name fine,
                     fr_owner_id = f_owner_id fine,
                     fr_fine_type = f_fine_type fine,
                     fr_fine_amount = f_fine_amount fine,
                     fr_issued_at = f_issued_at fine,
                     fr_paid = f_paid fine \<rparr>,
              w\<lparr> fines := fines w @ [fine],
                 scan_logs := scan_logs w @ [scan_log],
                 notified := notified w @ [(vs_plate_number v, fine_amount, fine_type)] \<rparr>))"

definition log_scan ::
  "World \<Rightarrow> pystr \<Rightarrow> real \<Rightarrow> VehicleStatus option \<Rightarrow> bool \<Rightarrow> bool \<Rightarrow> datetime \<Rightarrow> World" where
  "log_scan w plate_number confidence v is_cached is_fine_issued now =
     w\<lparr> scan_logs := scan_logs w @
          [\<lparr> sl_id = length (scan_logs w) + 1,
             sl_plate_number = plate_number,
             sl_scanned_at = now,
             sl_confidence = confidence,
             sl_road_tax_valid = map_option road_tax_valid v,
             sl_insurance_valid = map_option insurance_valid v,
             sl_fine_issued = is_fine_issued,
             sl_cached_result = is_cached \<rparr>] \<rparr>"

definition to_record :: "Fine \<Rightarrow> FineRecord" where
  "to_record f =
     \<lparr> fr_id = Some (f_id f),
       fr_plate_number = f_plate_number f,
       fr_owner_name = f_owner_name f,
       fr_owner_id = f_owner_id f,
       fr_fine_type = f_fine_type f,
       fr_fine_amount = f_fine_amount f,
       fr_issued_at = f_issued_at f,
       fr_paid = f_paid f \<rparr>"

text \<open>
  \<open>FineService.get_fine_by_plate\<close>: the rows whose \<open>plate_number\<close> column equals the
  normalized argument. The source orders them by \<open>issued_at\<close>, newest first; the model
  returns them in table order, and the statements below speak of membership only.
\<close>

definition get_fine_by_plate :: "World \<Rightarrow> pystr \<Rightarrow> FineRecord list" where
  "get_fine_by_plate w plate_number =
     (let normalized =
            replace (replace (upper plate_number) (ascii '' '') (ascii '''')) (ascii ''-'') (ascii '''')
      in
      map to_record (filter (\<lambda>f. f_plate_number f = normalized) (fines w)))"

subsection \<open>\<open>app/routers/scan.py\<close>\<close>

definition MIN_FINE_CONFIDENCE :: real where
  "MIN_FINE_CONFIDENCE = 0.9"

text \<open>
  What the outside world contributes to one call of \<open>_process_plate\<close>: the clock
  readings of the operations that read the clock, the outcome of the request to the
  validation service, and the draws of the mock generator.
\<close>

record Env =
  t_lookup :: datetime
  http :: http_outcome
  t_mock :: datetime
  draws :: mock_draws
  t_insert :: datetime
  t_issued :: datetime
  t_scanned :: datetime

definition process_plate ::
  "FineService \<Rightarrow> World \<Rightarrow> Env \<Rightarrow> pystr \<Rightarrow> real \<Rightarrow> ScanResult \<times> World" where
  "process_plate svc w env plate_number confidence =
     (let (cached_status, pc1) = get_cached_result (plate_cache w) (t_lookup env) plate_number;
          w1 = w\<lparr>plate_cache := pc1\<rparr>
      in case cached_status of
           Some st \<Rightarrow>
             (\<lparr> sr_plate_number = plate_number, sr_confidence = confidence, cached = True,
                vehicle_status = Some st, fine_issued = False, sr_fine_amount = None,
                error = None \<rparr>, w1)
         | None \<Rightarrow>
             (case check_vehicle plate_number (http env) (t_mock env) (draws env) of
                Inl msg \<Rightarrow>
                  (\<lparr> sr_plate_number = plate_number, sr_confidence = confidence,
                     cached = False, vehicle_status = None, fine_issued = False,
                     sr_fine_amount = None, error = Some msg \<rparr>, w1)
              | Inr v \<Rightarrow>
                  let w2 = w1\<lparr>plate_cache := add_plate pc1 (t_insert env) plate_number v\<rparr>;
                      (fine_record, w3) =
                        (if \<not> is_compliant v \<and> confidence \<ge> MIN_FINE_CONFIDENCE
                         then issue_fine svc w2 v confidence (t_issued env) (t_scanned env)
                         else if \<not> is_compliant v
                         then (None, log_scan w2 plate_number confidence (Some v)
                                       False False (t_scanned env))
                         else (None, log_scan w2 plate_number confidence (Some v)
                                       False False (t_scanned env)))
                  in (\<lparr> sr_plate_number = plate_number, sr_confidence = confidence,
                        cached = False, vehicle_status = Some v,
                        fine_issued = (fine_record \<noteq> None),
                        sr_fine_amount = map_option fr_fine_amount fine_record,
                        error = None \<rparr>, w3)))"

subsection \<open>Start state and sample inputs\<close>

text \<open>
  The state at process start: the module-level \<open>plate_cache = PlateCache()\<close> and
  \<open>fine_service = FineService()\<close> built from the settings, and empty tables.
\<close>

definition start_world :: "Settings \<Rightarrow> World" where
  "start_world settings =
     \<lparr> plate_cache = PlateCache_init settings None, fines = [], scan_logs = [], notified = [] \<rparr>"

definition sample_data :: "bool \<Rightarrow> bool \<Rightarrow> api_data" where
  "sample_data tax_ok insurance_ok =
     \<lparr> d_owner_name = Some (ascii ''Tan Wei Ming''),
       d_owner_id = Some (ascii ''900101105555''),
       d_road_tax_valid = Some tax_ok,
       d_road_tax_expiry = None,
       d_insurance_valid = Some insurance_ok,
       d_insurance_expiry = None \<rparr>"

definition sample_status :: "pystr \<Rightarrow> bool \<Rightarrow> bool \<Rightarrow> VehicleStatus" where
  "sample_status plate tax_ok insurance_ok =
     \<lparr> vs_plate_number = plate,
       vs_owner_name = Some (ascii ''Tan Wei Ming''),
       vs_owner_id = Some (ascii ''900101105555''),
       road_tax_valid = tax_ok,
       road_tax_expiry = None,
       insurance_valid = insurance_ok,
       insurance_expiry = None \<rparr>"

text \<open>
  One observation at clock reading \<open>t\<close> (the later readings follow one microsecond
  apart) with the given outcome of the validation request; the mock generator draws
  0.9 twice, which makes both documents invalid.
\<close>

definition sample_env :: "datetime \<Rightarrow> http_outcome \<Rightarrow> Env" where
  "sample_env t outcome =
     \<lparr> t_lookup = t,
       http = outcome,
       t_mock = t + 1,
       draws = \<lparr> tax_draw = 0.9, insurance_draw = 0.9, tax_days = 30, insurance_days = 30 \<rparr>,
       t_insert = t + 2,
       t_issued = t + 3,
       t_scanned = t + 4 \<rparr>"

text \<open>A cache that saw the plate \<open>ABC 123\<close>, road tax expired, at clock reading 1000.\<close>

definition sample_cache :: PlateCache where
  "sample_cache =
     add_plate (PlateCache_init default_settings None) 1000 (ascii ''ABC 123'')
       (sample_status (ascii ''ABC 123'') False True)"

text \<open>A world whose cache is the given one and whose tables are empty.\<close>

definition world_with :: "PlateCache \<Rightarrow> World" where
  "world_with pc = \<lparr> plate_cache = pc, fines = [], scan_logs = [], notified = [] \<rparr>"

text \<open>
  Scenario A of the specification: the plate \<open>ABC 123\<close>, never seen, read with
  confidence 0.95; the validation service answers 200 with both documents expired.
\<close>

definition scenario_a :: "ScanResult \<times> World" where
  "scenario_a =
     process_plate (FineService_init default_settings) (start_world default_settings)
       (sample_env 1000 (Response 200 (sample_data False False))) (ascii ''ABC 123'') (95 / 100)"

section \<open>Properties\<close>

subsection \<open>Strings\<close>

lemma replace_Nil: "replace [] [c] [] = []"
  by (subst replace.simps) simp

lemma replace_Cons:
  "replace (a # s) [c] [] = (if a = c then replace s [c] [] else a # replace s [c] [])"
  by (subst replace.simps) simp

text \<open>Replacing a one-character string by the empty string deletes that character.\<close>

lemma replace_delete_char: "replace s [c] [] = filter (\<lambda>x. x \<noteq> c) s"
  by (induction s) (simp_all add: replace_Nil replace_Cons)

lemma char_of_nat_eq: "char_of (n::nat) = c \<longleftrightarrow> n mod 256 = of_char c"
  by (simp add: char_of_eq_iff take_bit_eq_mod)

lemma ascii_consts: "ascii '' '' = [32]" "ascii ''-'' = [45]" "ascii [] = []"
  by (simp_all add: ascii_def)

lemma ascii_eq_iff [simp]: "ascii s = ascii t \<longleftrightarrow> s = t"
  unfolding ascii_def by (rule inj_map_eq_map) (rule inj_of_char)

subsection \<open>The uppercase table\<close>

lemma map_of_alookup: "map_of es c = alookup es c"
  by (induction es) auto

lemma alookup_cong: "c = c' \<Longrightarrow> alookup es c = alookup es c'"
  by simp

lemma block_of_cong: "c = c' \<Longrightarrow> block_of bs c = block_of bs c'"
  by simp

lemma block_of_arg: "bs = bs' \<Longrightarrow> block_of bs c = block_of bs' c"
  by simp

lemma find_in_arg: "es = es' \<Longrightarrow> find_in es c = alookup es' c"
  by (simp add: find_in_def)

lemma find_in_Nil: "find_in [] c = None"
  by (simp add: find_in_def)

lemmas upper_eval =
  upper_ok_def upper_entry_def upper_blocks_def [THEN block_of_arg] block_of.simps alookup.simps find_in_Nil
  if_True if_False simp_thms list.pred_inject prod.case
  eq_numeral_simps less_numeral_simps le_numeral_simps eq_num_simps less_num_simps le_num_simps
  upper_0040_def [THEN find_in_arg]
  upper_0080_def [THEN find_in_arg]
  upper_00C0_def [THEN find_in_arg]
  upper_0100_def [THEN find_in_arg]
  upper_0140_def [THEN find_in_arg]
  upper_0180_def [THEN find_in_arg]
  upper_01C0_def [THEN find_in_arg]
  upper_0200_def [THEN find_in_arg]
  upper_0240_def [THEN find_in_arg]
  upper_0280_def [THEN find_in_arg]
  upper_0340_def [THEN find_in_arg]
  upper_0380_def [THEN find_in_arg]
  upper_03C0_def [THEN find_in_arg]
  upper_0400_def [THEN find_in_arg]
  upper_0440_def [THEN find_in_arg]
  upper_0480_def [THEN find_in_arg]
  upper_04C0_def [THEN find_in_arg]
  upper_0500_def [THEN find_in_arg]
  upper_0540_def [THEN find_in_arg]
  upper_0580_def [THEN find_in_arg]
  upper_10C0_def [THEN find_in_arg]
  upper_13C0_def [THEN find_in_arg]
  upper_1C80_def [THEN find_in_arg]
  upper_1D40_def [THEN find_in_arg]
  upper_1D80_def [THEN find_in_arg]
  upper_1E00_def [THEN find_in_arg]
  upper_1E40_def [THEN find_in_arg]
  upper_1E80_def [THEN find_in_arg]
  upper_1EC0_def [THEN find_in_arg]
  upper_1F00_def [THEN find_in_arg]
  upper_1F40_def [THEN find_in_arg]
  upper_1F80_def [THEN find_in_arg]
  upper_1FC0_def [THEN find_in_arg]
  upper_2140_def [THEN find_in_arg]
  upper_2180_def [THEN find_in_arg]
  upper_24C0_def [THEN find_in_arg]
  upper_2C00_def [THEN find_in_arg]
  upper_2C40_def [THEN find_in_arg]
  upper_2C80_def [THEN find_in_arg]
  upper_2CC0_def [THEN find_in_arg]
  upper_2D00_def [THEN find_in_arg]
  upper_A640_def [THEN find_in_arg]
  upper_A680_def [THEN find_in_arg]
  upper_A700_def [THEN find_in_arg]
  upper_A740_def [THEN find_in_arg]
  upper_A780_def [THEN find_in_arg]
  upper_A7C0_def [THEN find_in_arg]
  upper_AB40_def [THEN find_in_arg]
  upper_AB80_def [THEN find_in_arg]
  upper_FB00_def [THEN find_in_arg]
  upper_FF40_def [THEN find_in_arg]
  upper_10400_def [THEN find_in_arg]
  upper_10440_def [THEN find_in_arg]
  upper_104C0_def [THEN find_in_arg]
  upper_10580_def [THEN find_in_arg]
  upper_10CC0_def [THEN find_in_arg]
  upper_118C0_def [THEN find_in_arg]
  upper_16E40_def [THEN find_in_arg]
  upper_1E900_def [THEN find_in_arg]
  upper_1E940_def [THEN find_in_arg]

text \<open>
  Block by block: the lookup finds every entry where the table lists it, no code point
  that the table produces has an entry of its own, and none is a space or a hyphen.
\<close>

lemma upper_0040_ok: "list_all (\<lambda>(k, r). upper_entry k r) upper_0040"
  unfolding upper_0040_def
  by (simp only: upper_eval cong: alookup_cong block_of_cong)

lemma upper_0080_ok: "list_all (\<lambda>(k, r). upper_entry k r) upper_0080"
  unfolding upper_0080_def
  by (simp only: upper_eval cong: alookup_cong block_of_cong)

lemma upper_00C0_ok: "list_all (\<lambda>(k, r). upper_entry k r) upper_00C0"
  unfolding upper_00C0_def
  by (simp only: upper_eval cong: alookup_cong block_of_cong)

lemma upper_0100_ok: "list_all (\<lambda>(k, r). upper_entry k r) upper_0100"
  unfolding upper_0100_def
  by (simp only: upper_eval cong: alookup_cong block_of_cong)

lemma upper_0140_ok: "list_all (\<lambda>(k, r). upper_entry k r) upper_0140"
  unfolding upper_0140_def
  by (simp only: upper_eval cong: alookup_cong block_of_cong)

lemma upper_0180_ok: "list_all (\<lambda>(k, r). upper_entry k r) upper_0180"
  unfolding upper_0180_def
  by (simp only: upper_eval cong: alookup_cong block_of_cong)

lemma upper_01C0_ok: "list_all (\<lambda>(k, r). upper_entry k r) upper_01C0"
  unfolding upper_01C0_def
  by (simp only: upper_eval cong: alookup_cong block_of_cong)

lemma upper_0200_ok: "list_all (\<lambda>(k, r). upper_entry k r) upper_0200"
  unfolding upper_0200_def
  by (simp only: upper_eval cong: alookup_cong block_of_cong)

lemma upper_0240_ok: "list_all (\<lambda>(k, r). upper_entry k r) upper_0240"
  unfolding upper_0240_def
  by (simp only: upper_eval cong: alookup_cong block_of_cong)

lemma upper_0280_ok: "list_all (\<lambda>(k, r). upper_entry k r) upper_0280"
  unfolding upper_0280_def
  by (simp only: upper_eval cong: alookup_cong block_of_cong)

lemma upper_0340_ok: "list_all (\<lambda>(k, r). upper_entry k r) upper_0340"
  unfolding upper_0340_def
  by (simp only: upper_eval cong: alookup_cong block_of_cong)

lemma upper_0380_ok: "list_all (\<lambda>(k, r). upper_entry k r) upper_0380"
  unfolding upper_0380_def
  by (simp only: upper_eval cong: alookup_cong block_of_cong)

lemma upper_03C0_ok: "list_all (\<lambda>(k, r). upper_entry k r) upper_03C0"
  unfolding upper_03C0_def
  by (simp only: upper_eval cong: alookup_cong block_of_cong)

lemma upper_0400_ok: "list_all (\<lambda>(k, r). upper_entry k r) upper_0400"
  unfolding upper_0400_def
  by (simp only: upper_eval cong: alookup_cong block_of_cong)

lemma upper_0440_ok: "list_all (\<lambda>(k, r). upper_entry k r) upper_0440"
  unfolding upper_0440_def
  by (simp only: upper_eval cong: alookup_cong block_of_cong)

lemma upper_0480_ok: "list_all (\<lambda>(k, r). upper_entry k r) upper_0480"
  unfolding upper_0480_def
  by (simp only: upper_eval cong: alookup_cong block_of_cong)

lemma upper_04C0_ok: "list_all (\<lambda>(k, r). upper_entry k r) upper_04C0"
  unfolding upper_04C0_def
  by (simp only: upper_eval cong: alookup_cong block_of_cong)

lemma upper_0500_ok: "list_all (\<lambda>(k, r). upper_entry k r) upper_0500"
  unfolding upper_0500_def
  by (simp only: upper_eval cong: alookup_cong block_of_cong)

lemma upper_0540_ok: "list_all (\<lambda>(k, r). upper_entry k r) upper_0540"
  unfolding upper_0540_def
  by (simp only: upper_eval cong: alookup_cong block_of_cong)

lemma upper_0580_ok: "list_all (\<lambda>(k, r). upper_entry k r) upper_0580"
  unfolding upper_0580_def
  by (simp only: upper_eval cong: alookup_cong block_of_cong)

lemma upper_10C0_ok: "list_all (\<lambda>(k, r). upper_entry k r) upper_10C0"
  unfolding upper_10C0_def
  by (simp only: upper_eval cong: alookup_cong block_of_cong)

lemma upper_13C0_ok: "list_all (\<lambda>(k, r). upper_entry k r) upper_13C0"
  unfolding upper_13C0_def
  by (simp only: upper_eval cong: alookup_cong block_of_cong)

lemma upper_1C80_ok: "list_all (\<lambda>(k, r). upper_entry k r) upper_1C80"
  unfolding upper_1C80_def
  by (simp only: upper_eval cong: alookup_cong block_of_cong)

lemma upper_1D40_ok: "list_all (\<lambda>(k, r). upper_entry k r) upper_1D40"
  unfolding upper_1D40_def
  by (simp only: upper_eval cong: alookup_cong block_of_cong)

lemma upper_1D80_ok: "list_all (\<lambda>(k, r). upper_entry k r) upper_1D80"
  unfolding upper_1D80_def
  by (simp only: upper_eval cong: alookup_cong block_of_cong)

lemma upper_1E00_ok: "list_all (\<lambda>(k, r). upper_entry k r) upper_1E00"
  unfolding upper_1E00_def
  by (simp only: upper_eval cong: alookup_cong block_of_cong)

lemma upper_1E40_ok: "list_all (\<lambda>(k, r). upper_entry k r) upper_1E40"
  unfolding upper_1E40_def
  by (simp only: upper_eval cong: alookup_cong block_of_cong)

lemma upper_1E80_ok: "list_all (\<lambda>(k, r). upper_entry k r) upper_1E80"
  unfolding upper_1E80_def
  by (simp only: upper_eval cong: alookup_cong block_of_cong)

lemma upper_1EC0_ok: "list_all (\<lambda>(k, r). upper_entry k r) upper_1EC0"
  unfolding upper_1EC0_def
  by (simp only: upper_eval cong: alookup_cong block_of_cong)

lemma upper_1F00_ok: "list_all (\<lambda>(k, r). upper_entry k r) upper_1F00"
  unfolding upper_1F00_def
  by (simp only: upper_eval cong: alookup_cong block_of_cong)

lemma upper_1F40_ok: "list_all (\<lambda>(k, r). upper_entry k r) upper_1F40"
  unfolding upper_1F40_def
  by (simp only: upper_eval cong: alookup_cong block_of_cong)

lemma upper_1F80_ok: "list_all (\<lambda>(k, r). upper_entry k r) upper_1F80"
  unfolding upper_1F80_def
  by (simp only: upper_eval cong: alookup_cong block_of_cong)

lemma upper_1FC0_ok: "list_all (\<lambda>(k, r). upper_entry k r) upper_1FC0"
  unfolding upper_1FC0_def
  by (simp only: upper_eval cong: alookup_cong block_of_cong)

lemma upper_2140_ok: "list_all (\<lambda>(k, r). upper_entry k r) upper_2140"
  unfolding upper_2140_def
  by (simp only: upper_eval cong: alookup_cong block_of_cong)

lemma upper_2180_ok: "list_all (\<lambda>(k, r). upper_entry k r) upper_2180"
  unfolding upper_2180_def
  by (simp only: upper_eval cong: alookup_cong block_of_cong)

lemma upper_24C0_ok: "list_all (\<lambda>(k, r). upper_entry k r) upper_24C0"
  unfolding upper_24C0_def
  by (simp only: upper_eval cong: alookup_cong block_of_cong)

lemma upper_2C00_ok: "list_all (\<lambda>(k, r). upper_entry k r) upper_2C00"
  unfolding upper_2C00_def
  by (simp only: upper_eval cong: alookup_cong block_of_cong)

lemma upper_2C40_ok: "list_all (\<lambda>(k, r). upper_entry k r) upper_2C40"
  unfolding upper_2C40_def
  by (simp only: upper_eval cong: alookup_cong block_of_cong)

lemma upper_2C80_ok: "list_all (\<lambda>(k, r). upper_entry k r) upper_2C80"
  unfolding upper_2C80_def
  by (simp only: upper_eval cong: alookup_cong block_of_cong)

lemma upper_2CC0_ok: "list_all (\<lambda>(k, r). upper_entry k r) upper_2CC0"
  unfolding upper_2CC0_def
  by (simp only: upper_eval cong: alookup_cong block_of_cong)

lemma upper_2D00_ok: "list_all (\<lambda>(k, r). upper_entry k r) upper_2D00"
  unfolding upper_2D00_def
  by (simp only: upper_eval cong: alookup_cong block_of_cong)

lemma upper_A640_ok: "list_all (\<lambda>(k, r). upper_entry k r) upper_A640"
  unfolding upper_A640_def
  by (simp only: upper_eval cong: alookup_cong block_of_cong)

lemma upper_A680_ok: "list_all (\<lambda>(k, r). upper_entry k r) upper_A680"
  unfolding upper_A680_def
  by (simp only: upper_eval cong: alookup_cong block_of_cong)

lemma upper_A700_ok: "list_all (\<lambda>(k, r). upper_entry k r) upper_A700"
  unfolding upper_A700_def
  by (simp only: upper_eval cong: alookup_cong block_of_cong)

lemma upper_A740_ok: "list_all (\<lambda>(k, r). upper_entry k r) upper_A740"
  unfolding upper_A740_def
  by (simp only: upper_eval cong: alookup_cong block_of_cong)

lemma upper_A780_ok: "list_all (\<lambda>(k, r). upper_entry k r) upper_A780"
  unfolding upper_A780_def
  by (simp only: upper_eval cong: alookup_cong block_of_cong)

lemma upper_A7C0_ok: "list_all (\<lambda>(k, r). upper_entry k r) upper_A7C0"
  unfolding upper_A7C0_def
  by (simp only: upper_eval cong: alookup_cong block_of_cong)

lemma upper_AB40_ok: "list_all (\<lambda>(k, r). upper_entry k r) upper_AB40"
  unfolding upper_AB40_def
  by (simp only: upper_eval cong: alookup_cong block_of_cong)

lemma upper_AB80_ok: "list_all (\<lambda>(k, r). upper_entry k r) upper_AB80"
  unfolding upper_AB80_def
  by (simp only: upper_eval cong: alookup_cong block_of_cong)

lemma upper_FB00_ok: "list_all (\<lambda>(k, r). upper_entry k r) upper_FB00"
  unfolding upper_FB00_def
  by (simp only: upper_eval cong: alookup_cong block_of_cong)

lemma upper_FF40_ok: "list_all (\<lambda>(k, r). upper_entry k r) upper_FF40"
  unfolding upper_FF40_def
  by (simp only: upper_eval cong: alookup_cong block_of_cong)

lemma upper_10400_ok: "list_all (\<lambda>(k, r). upper_entry k r) upper_10400"
  unfolding upper_10400_def
  by (simp only: upper_eval cong: alookup_cong block_of_cong)

lemma upper_10440_ok: "list_all (\<lambda>(k, r). upper_entry k r) upper_10440"
  unfolding upper_10440_def
  by (simp only: upper_eval cong: alookup_cong block_of_cong)

lemma upper_104C0_ok: "list_all (\<lambda>(k, r). upper_entry k r) upper_104C0"
  unfolding upper_104C0_def
  by (simp only: upper_eval cong: alookup_cong block_of_cong)

lemma upper_10580_ok: "list_all (\<lambda>(k, r). upper_entry k r) upper_10580"
  unfolding upper_10580_def
  by (simp only: upper_eval cong: alookup_cong block_of_cong)

lemma upper_10CC0_ok: "list_all (\<lambda>(k, r). upper_entry k r) upper_10CC0"
  unfolding upper_10CC0_def
  by (simp only: upper_eval cong: alookup_cong block_of_cong)

lemma upper_118C0_ok: "list_all (\<lambda>(k, r). upper_entry k r) upper_118C0"
  unfolding upper_118C0_def
  by (simp only: upper_eval cong: alookup_cong block_of_cong)

lemma upper_16E40_ok: "list_all (\<lambda>(k, r). upper_entry k r) upper_16E40"
  unfolding upper_16E40_def
  by (simp only: upper_eval cong: alookup_cong block_of_cong)

lemma upper_1E900_ok: "list_all (\<lambda>(k, r). upper_entry k r) upper_1E900"
  unfolding upper_1E900_def
  by (simp only: upper_eval cong: alookup_cong block_of_cong)

lemma upper_1E940_ok: "list_all (\<lambda>(k, r). upper_entry k r) upper_1E940"
  unfolding upper_1E940_def
  by (simp only: upper_eval cong: alookup_cong block_of_cong)

lemma upper_blocks_ok:
  "list_all (\<lambda>(lo, hi, es). list_all (\<lambda>(k, r). upper_entry k r) es) upper_blocks"
  unfolding upper_blocks_def
  by (simp only: list.pred_inject prod.case simp_thms
        upper_0040_ok upper_0080_ok upper_00C0_ok upper_0100_ok upper_0140_ok upper_0180_ok
        upper_01C0_ok upper_0200_ok upper_0240_ok upper_0280_ok upper_0340_ok upper_0380_ok
        upper_03C0_ok upper_0400_ok upper_0440_ok upper_0480_ok upper_04C0_ok upper_0500_ok
        upper_0540_ok upper_0580_ok upper_10C0_ok upper_13C0_ok upper_1C80_ok upper_1D40_ok
        upper_1D80_ok upper_1E00_ok upper_1E40_ok upper_1E80_ok upper_1EC0_ok upper_1F00_ok
        upper_1F40_ok upper_1F80_ok upper_1FC0_ok upper_2140_ok upper_2180_ok upper_24C0_ok
        upper_2C00_ok upper_2C40_ok upper_2C80_ok upper_2CC0_ok upper_2D00_ok upper_A640_ok
        upper_A680_ok upper_A700_ok upper_A740_ok upper_A780_ok upper_A7C0_ok upper_AB40_ok
        upper_AB80_ok upper_FB00_ok upper_FF40_ok upper_10400_ok upper_10440_ok upper_104C0_ok
        upper_10580_ok upper_10CC0_ok upper_118C0_ok upper_16E40_ok upper_1E900_ok upper_1E940_ok)

lemma block_of_all:
  "list_all (\<lambda>(lo, hi, es). P es) bs \<Longrightarrow> P [] \<Longrightarrow> P (block_of bs c)"
  by (induction bs) auto

lemma map_of_all:
  "list_all (\<lambda>(k, r). Q r) es \<Longrightarrow> map_of es c = Some r \<Longrightarrow> Q r"
  by (induction es) (auto split: if_splits)

lemma upper_ok_fixed: "upper_ok d \<Longrightarrow> upper_cp d = [d]"
  by (simp add: upper_ok_def upper_cp_def find_in_def map_of_alookup)

text \<open>The table is read as it is written: every listed code point gets its listed mapping.\<close>

lemma upper_cp_entry:
  assumes "(lo, hi, es) \<in> set upper_blocks" and "(k, r) \<in> set es"
  shows "upper_cp k = r"
proof -
  have "upper_entry k r"
    using upper_blocks_ok assms by (fastforce simp add: list_all_iff)
  then show ?thesis
    by (simp add: upper_entry_def upper_cp_def find_in_def map_of_alookup)
qed

text \<open>A code point is either left alone or replaced by code points that pass.\<close>

lemma upper_cp_cases: "upper_cp c = [c] \<or> list_all upper_ok (upper_cp c)"
proof (cases "map_of (block_of upper_blocks c) c")
  case None
  then show ?thesis by (simp add: upper_cp_def)
next
  case (Some r)
  have "list_all (\<lambda>(k, r). upper_entry k r) (block_of upper_blocks c)"
    using upper_blocks_ok by (rule block_of_all) simp
  then have "list_all (\<lambda>(k, r). list_all upper_ok r) (block_of upper_blocks c)"
    by (auto simp add: list_all_iff upper_entry_def)
  then have "list_all upper_ok r"
    using Some by (rule map_of_all)
  with Some show ?thesis by (simp add: upper_cp_def)
qed

text \<open>What \<open>str.upper\<close> produces, it leaves alone.\<close>

lemma upper_cp_idem: "d \<in> set (upper_cp c) \<Longrightarrow> upper_cp d = [d]"
  using upper_cp_cases [of c] by (auto simp add: list_all_iff upper_ok_fixed)

lemma upper_idem: "upper (upper s) = upper s"
proof -
  have "concat (map upper_cp xs) = xs" if "\<And>d. d \<in> set xs \<Longrightarrow> upper_cp d = [d]" for xs
    using that by (induction xs) simp_all
  then show ?thesis
    unfolding upper_def [of "upper s"] by (rule meta_mp) (auto simp add: upper_def upper_cp_idem)
qed

text \<open>Spaces and hyphens: \<open>str.upper\<close> keeps them and creates none.\<close>

lemma upper_cp_space: "upper_cp 32 = [32]"
  by (simp add: upper_cp_def upper_blocks_def)

lemma upper_cp_hyphen: "upper_cp 45 = [45]"
  by (simp add: upper_cp_def upper_blocks_def)

lemma upper_cp_above_hyphen: "d \<in> set (upper_cp c) \<Longrightarrow> d = c \<or> 45 < d"
  using upper_cp_cases [of c] by (auto simp add: list_all_iff upper_ok_def)

lemma upper_cp_no_sep:
  "c \<noteq> 32 \<Longrightarrow> c \<noteq> 45 \<Longrightarrow> filter (\<lambda>d. d \<noteq> 32 \<and> d \<noteq> 45) (upper_cp c) = upper_cp c"
  by (rule filter_True) (auto dest: upper_cp_above_hyphen)

text \<open>On ASCII, \<open>str.upper\<close> maps \<open>a..z\<close> to \<open>A..Z\<close> and changes nothing else.\<close>

lemma upper_0040_ascii:
  "map_of upper_0040 c = (if is_ascii_lower c then Some [c - 32] else None)"
proof -
  have eq: "upper_0040 = map (\<lambda>k. (k, [k - 32])) [97..<123]"
    by (simp add: upper_0040_def)
  have "map_of upper_0040 c = ((Some \<circ> (\<lambda>k. [k - 32])) |` {97..<123}) c"
    by (simp only: eq map_of_map_restrict set_upt)
  then show ?thesis
    by (auto simp add: restrict_map_def is_ascii_lower_def)
qed

lemma upper_cp_ascii:
  "c < 128 \<Longrightarrow> upper_cp c = (if is_ascii_lower c then [c - 32] else [c])"
  by (auto simp add: upper_cp_def upper_blocks_def upper_0040_ascii is_ascii_lower_def)

text \<open>
  Beyond ASCII: \<open>U+00E9\<close> becomes \<open>U+00C9\<close>, \<open>U+00DF\<close> becomes \<open>SS\<close>, the micro sign
  becomes \<open>U+039C\<close>, and \<open>U+0138\<close>, a lowercase letter without an uppercase form,
  stays.
\<close>

lemma upper_cp_examples:
  "upper_cp 233 = [201]" "upper_cp 223 = [83, 83]" "upper_cp 181 = [924]" "upper_cp 312 = [312]"
  by (simp_all add: upper_cp_def upper_blocks_def upper_0080_def upper_00C0_def upper_0100_def)

text \<open>
  The key is the input with every space and hyphen dropped and every remaining
  character uppercased.
\<close>

lemma filter_upper:
  "filter (\<lambda>d. d \<noteq> 32 \<and> d \<noteq> 45) (upper s) = upper (filter (\<lambda>c. c \<noteq> 32 \<and> c \<noteq> 45) s)"
  by (induction s) (auto simp add: upper_def upper_cp_space upper_cp_hyphen upper_cp_no_sep)

lemma normalize_plate_filter:
  "normalize_plate s = upper (filter (\<lambda>c. c \<noteq> 32 \<and> c \<noteq> 45) s)"
proof -
  have "normalize_plate s = filter (\<lambda>d. d \<noteq> 32 \<and> d \<noteq> 45) (upper s)"
    by (simp add: normalize_plate_def ascii_consts replace_delete_char conj_commute)
  then show ?thesis by (simp add: filter_upper)
qed

lemma normalize_plate_no_sep: "32 \<notin> set (normalize_plate s) \<and> 45 \<notin> set (normalize_plate s)"
proof -
  have "normalize_plate s = filter (\<lambda>d. d \<noteq> 32 \<and> d \<noteq> 45) (upper s)"
    by (simp add: normalize_plate_filter filter_upper)
  then have "set (normalize_plate s) \<subseteq> {d. d \<noteq> 32 \<and> d \<noteq> 45}"
    by auto
  then show ?thesis by auto
qed

text \<open>A key is a fixed point of normalization.\<close>

lemma normalize_plate_fixed: "normalize_plate (normalize_plate x) = normalize_plate x"
proof -
  have "filter (\<lambda>c. c \<noteq> 32 \<and> c \<noteq> 45) (normalize_plate x) = normalize_plate x"
    using normalize_plate_no_sep [of x] by (intro filter_True) auto
  then have "normalize_plate (normalize_plate x) = upper (normalize_plate x)"
    by (simp add: normalize_plate_filter [of "normalize_plate x"])
  also have "\<dots> = normalize_plate x"
    by (simp add: normalize_plate_filter upper_idem)
  finally show ?thesis .
qed

subsection \<open>Plate normalization\<close>

text \<open>
  Claim C6, as the source has it. \<open>_normalize_plate\<close> is a total function of its
  input. The key is \<open>str.upper\<close> of the input without its spaces (code point 32) and
  hyphens (code point 45): every other character is kept, in its uppercase form. The
  key is uppercased, that is, \<open>str.upper\<close> leaves it unchanged, and it has no space
  and no hyphen. When the input holds only ASCII letters, ASCII digits, spaces and
  hyphens (as the text produced by the OCR cleaner does), the key holds only the letters
  \<open>A..Z\<close> and digits. The empty string maps to the empty key.
\<close>

theorem normalize_plate_spec:
  "normalize_plate s = upper (filter (\<lambda>c. c \<noteq> 32 \<and> c \<noteq> 45) s)
   \<and> upper (normalize_plate s) = normalize_plate s
   \<and> 32 \<notin> set (normalize_plate s)
   \<and> 45 \<notin> set (normalize_plate s)
   \<and> (list_all (\<lambda>c. is_ascii_alnum c \<or> c = 32 \<or> c = 45) s
        \<longrightarrow> list_all (\<lambda>c. is_ascii_upper c \<or> is_ascii_digit c) (normalize_plate s))
   \<and> normalize_plate [] = []"
proof (intro conjI impI)
  show "normalize_plate s = upper (filter (\<lambda>c. c \<noteq> 32 \<and> c \<noteq> 45) s)"
    by (rule normalize_plate_filter)
  show "upper (normalize_plate s) = normalize_plate s"
    by (simp add: normalize_plate_filter upper_idem)
  show "32 \<notin> set (normalize_plate s)" and "45 \<notin> set (normalize_plate s)"
    using normalize_plate_no_sep [of s] by simp_all
  show "normalize_plate [] = []"
    by (simp add: normalize_plate_filter upper_def)
next
  assume "list_all (\<lambda>c. is_ascii_alnum c \<or> c = 32 \<or> c = 45) s"
  then show "list_all (\<lambda>c. is_ascii_upper c \<or> is_ascii_digit c) (normalize_plate s)"
    unfolding normalize_plate_filter upper_def
  proof (induction s)
    case Nil
    show ?case by simp
  next
    case (Cons c s)
    then have rest: "list_all (\<lambda>c. is_ascii_upper c \<or> is_ascii_digit c)
        (concat (map upper_cp (filter (\<lambda>c. c \<noteq> 32 \<and> c \<noteq> 45) s)))"
      by simp
    from Cons.prems have "is_ascii_alnum c \<or> c = 32 \<or> c = 45"
      by simp
    then show ?case
      using rest
      by (auto simp add: upper_cp_ascii is_ascii_alnum_def is_ascii_lower_def
            is_ascii_upper_def is_ascii_digit_def)
  qed
qed

text \<open>The sample plates, normalized; the third has a sharp s and an e with acute.\<close>

lemma normalize_samples:
  "normalize_plate (ascii ''abc-123'') = ascii ''ABC123''"
  "normalize_plate (ascii ''ABC 123'') = ascii ''ABC123''"
  "normalize_plate (ascii ''XYZ999'') = ascii ''XYZ999''"
  "normalize_plate (ascii ''ABC123'') = ascii ''ABC123''"
  "normalize_plate (ascii ''ab-1 2'') = ascii ''AB12''"
  "normalize_plate (ascii ''a.b'') = ascii ''A.B''"
  "normalize_plate [223, 45, 233] = [83, 83, 201]"
  by (simp_all add: normalize_plate_filter ascii_def upper_def upper_cp_ascii
        upper_cp_examples is_ascii_lower_def)

theorem normalize_plate_spec_witness:
  "list_all (\<lambda>c. is_ascii_alnum c \<or> c = 32 \<or> c = 45) (ascii ''ab-1 2'')
   \<and> normalize_plate (ascii ''ab-1 2'') = ascii ''AB12''
   \<and> list_all (\<lambda>c. is_ascii_upper c \<or> is_ascii_digit c) (normalize_plate (ascii ''ab-1 2''))
   \<and> normalize_plate [223, 45, 233] = [83, 83, 201]
   \<and> upper (normalize_plate [223, 45, 233]) = [83, 83, 201]"
proof -
  have pre: "list_all (\<lambda>c. is_ascii_alnum c \<or> c = 32 \<or> c = 45) (ascii ''ab-1 2'')"
    by (simp add: ascii_def is_ascii_alnum_def is_ascii_lower_def is_ascii_upper_def
          is_ascii_digit_def)
  have "list_all (\<lambda>c. is_ascii_upper c \<or> is_ascii_digit c) (normalize_plate (ascii ''ab-1 2''))"
    using normalize_plate_spec [of "ascii ''ab-1 2''"] pre by blast
  moreover have "upper (normalize_plate [223, 45, 233]) = normalize_plate [223, 45, 233]"
    using normalize_plate_spec [of "[223, 45, 233]"] by blast
  ultimately show ?thesis
    using pre by (simp add: normalize_samples)
qed

text \<open>
  Claim C6, as the specification words it, asks that the key contain letters and
  digits only. A full stop in the input survives normalization.
\<close>

theorem normalize_plate_keeps_other_characters:
  "of_char (CHR ''.'') \<in> set (normalize_plate (ascii ''a.b''))
   \<and> \<not> is_ascii_alnum (of_char (CHR ''.''))"
  by (simp add: normalize_samples)
     (simp add: ascii_def is_ascii_alnum_def is_ascii_lower_def is_ascii_upper_def
        is_ascii_digit_def)

text \<open>
  Claim C9. Normalization is idempotent: normalizing a key that is already normalized
  gives the same key, for every string of code points.
\<close>

theorem normalize_plate_idempotent:
  "normalize_plate (normalize_plate x) = normalize_plate x"
  by (rule normalize_plate_fixed)

subsection \<open>Cache lookup\<close>

lemma get_cached_result_live:
  assumes "map_of (cache pc) (normalize_plate p) = Some e" "now - ce_timestamp e \<le> cooldown pc"
  shows "get_cached_result pc now p = (Some (ce_result e), pc\<lparr>hit_count := hit_count pc + 1\<rparr>)"
  using assms by (simp add: get_cached_result_def is_expired_def)

lemma get_cached_result_expired:
  assumes "map_of (cache pc) (normalize_plate p) = Some e" "now - ce_timestamp e > cooldown pc"
  shows "get_cached_result pc now p =
           (None, pc\<lparr>cache := AList.delete (normalize_plate p) (cache pc),
                     miss_count := miss_count pc + 1\<rparr>)"
  using assms by (simp add: get_cached_result_def is_expired_def)

lemma get_cached_result_absent:
  assumes "map_of (cache pc) (normalize_plate p) = None"
  shows "get_cached_result pc now p = (None, pc\<lparr>miss_count := miss_count pc + 1\<rparr>)"
  using assms by (simp add: get_cached_result_def)

text \<open>
  Claim C3. A lookup normalizes its argument to a key. If the cache holds an entry for
  the key and \<open>now - entry.timestamp <= cooldown\<close>, the lookup returns the stored
  status, adds one to the hit counter and changes nothing else. If the entry is older
  than the cooldown, the lookup returns \<open>None\<close>, deletes the entry and adds one to the
  miss counter. If there is no entry, it returns \<open>None\<close> and adds one to the miss
  counter.
\<close>

theorem get_cached_result_spec:
  "(map_of (cache pc) (normalize_plate p) = Some e \<and> now - ce_timestamp e \<le> cooldown pc \<longrightarrow>
      fst (get_cached_result pc now p) = Some (ce_result e)
      \<and> hit_count (snd (get_cached_result pc now p)) = hit_count pc + 1
      \<and> miss_count (snd (get_cached_result pc now p)) = miss_count pc
      \<and> cache (snd (get_cached_result pc now p)) = cache pc)
   \<and> (map_of (cache pc) (normalize_plate p) = Some e \<and> now - ce_timestamp e > cooldown pc \<longrightarrow>
      fst (get_cached_result pc now p) = None
      \<and> hit_count (snd (get_cached_result pc now p)) = hit_count pc
      \<and> miss_count (snd (get_cached_result pc now p)) = miss_count pc + 1
      \<and> cache (snd (get_cached_result pc now p)) = AList.delete (normalize_plate p) (cache pc)
      \<and> map_of (cache (snd (get_cached_result pc now p))) (normalize_plate p) = None)
   \<and> (map_of (cache pc) (normalize_plate p) = None \<longrightarrow>
      fst (get_cached_result pc now p) = None
      \<and> hit_count (snd (get_cached_result pc now p)) = hit_count pc
      \<and> miss_count (snd (get_cached_result pc now p)) = miss_count pc + 1
      \<and> cache (snd (get_cached_result pc now p)) = cache pc)"
  by (simp add: get_cached_result_live get_cached_result_expired get_cached_result_absent
        AList.delete_conv')

text \<open>The sample inputs, evaluated.\<close>

lemma sample_cache_eq:
  "sample_cache = \<lparr> cooldown = 300000000,
      cache = [((ascii ''ABC123''), \<lparr> ce_plate_number = (ascii ''ABC123''),
                  ce_result = sample_status (ascii ''ABC 123'') False True, ce_timestamp = 1000 \<rparr>)],
      hit_count = 0, miss_count = 0 \<rparr>"
  by (simp add: normalize_samples sample_cache_def add_plate_def PlateCache_init_def
        default_settings_def minutes_def Let_def)

theorem get_cached_result_spec_witness:
  "map_of (cache sample_cache) (normalize_plate (ascii ''abc-123'')) =
      Some \<lparr> ce_plate_number = (ascii ''ABC123''), ce_result = sample_status (ascii ''ABC 123'') False True,
             ce_timestamp = 1000 \<rparr>
   \<and> (300001000::int) - 1000 \<le> cooldown sample_cache
   \<and> fst (get_cached_result sample_cache 300001000 (ascii ''abc-123'')) =
       Some (sample_status (ascii ''ABC 123'') False True)
   \<and> hit_count (snd (get_cached_result sample_cache 300001000 (ascii ''abc-123''))) = 1
   \<and> miss_count (snd (get_cached_result sample_cache 300001000 (ascii ''abc-123''))) = 0
   \<and> (300001001::int) - 1000 > cooldown sample_cache
   \<and> fst (get_cached_result sample_cache 300001001 (ascii ''abc-123'')) = None
   \<and> hit_count (snd (get_cached_result sample_cache 300001001 (ascii ''abc-123''))) = 0
   \<and> miss_count (snd (get_cached_result sample_cache 300001001 (ascii ''abc-123''))) = 1
   \<and> cache (snd (get_cached_result sample_cache 300001001 (ascii ''abc-123''))) = []
   \<and> map_of (cache sample_cache) (normalize_plate (ascii ''XYZ999'')) = None
   \<and> fst (get_cached_result sample_cache 300001001 (ascii ''XYZ999'')) = None
   \<and> hit_count (snd (get_cached_result sample_cache 300001001 (ascii ''XYZ999''))) = 0
   \<and> miss_count (snd (get_cached_result sample_cache 300001001 (ascii ''XYZ999''))) = 1
   \<and> cache (snd (get_cached_result sample_cache 300001001 (ascii ''XYZ999''))) = cache sample_cache"
  using get_cached_result_spec [of sample_cache "ascii ''abc-123''"
          "\<lparr> ce_plate_number = (ascii ''ABC123''), ce_result = sample_status (ascii ''ABC 123'') False True,
             ce_timestamp = 1000 \<rparr>" 300001000]
        get_cached_result_spec [of sample_cache "ascii ''abc-123''"
          "\<lparr> ce_plate_number = (ascii ''ABC123''), ce_result = sample_status (ascii ''ABC 123'') False True,
             ce_timestamp = 1000 \<rparr>" 300001001]
        get_cached_result_spec [of sample_cache "ascii ''XYZ999''"
          "\<lparr> ce_plate_number = (ascii ''ABC123''), ce_result = sample_status (ascii ''ABC 123'') False True,
             ce_timestamp = 1000 \<rparr>" 300001001]
  by (simp add: normalize_samples sample_cache_eq AList.delete_eq)


subsection \<open>Cache invariant\<close>

lemma cache_inv_delete:
  assumes "cache_inv al"
  shows "cache_inv (AList.delete k al)"
proof -
  have "distinct (map fst (AList.delete k al))"
    using assms by (simp add: cache_inv_def AList.distinct_delete)
  moreover have "list_all (\<lambda>(k, e). normalize_plate k = k \<and> ce_plate_number e = k)
                   (AList.delete k al)"
    using assms by (auto simp add: cache_inv_def AList.delete_eq list_all_iff)
  ultimately show ?thesis by (simp add: cache_inv_def)
qed

lemma cache_inv_fold_delete: "cache_inv al \<Longrightarrow> cache_inv (fold AList.delete ks al)"
  by (induction ks arbitrary: al) (simp_all add: cache_inv_delete)

lemma list_all_update:
  "list_all P al \<Longrightarrow> P (k, v) \<Longrightarrow> list_all P (AList.update k v al)"
  by (induction al) auto

lemma cache_inv_update:
  "cache_inv al \<Longrightarrow> cache_inv (AList.update (normalize_plate p)
       \<lparr> ce_plate_number = normalize_plate p, ce_result = r, ce_timestamp = t \<rparr> al)"
  by (simp add: cache_inv_def AList.distinct_update list_all_update normalize_plate_fixed)

lemma reachable_cache_inv: "reachable pc \<Longrightarrow> cache_inv (cache pc)"
proof (induction rule: reachable.induct)
  case (r_init settings cooldown_minutes)
  show ?case by (simp add: PlateCache_init_def cache_inv_def)
next
  case (r_recent pc now plate_number)
  then show ?case
    by (simp add: is_recently_scanned_def Let_def cache_inv_delete split: option.split)
next
  case (r_lookup pc now plate_number)
  then show ?case
    by (simp add: get_cached_result_def Let_def cache_inv_delete split: option.split)
next
  case (r_add pc now plate_number result)
  then show ?case
    by (simp add: add_plate_def Let_def cache_inv_update)
next
  case (r_cleanup pc now)
  then show ?case
    by (simp add: cleanup_expired_def Let_def cache_inv_fold_delete)
next
  case (r_clear pc)
  show ?case by (simp add: clear_def cache_inv_def)
qed

lemma filter_key_absent:
  "k \<notin> fst ` set al \<Longrightarrow> filter (\<lambda>(k', e). k' = k) al = []"
  by (induction al) auto

lemma filter_key_update:
  "distinct (map fst al) \<Longrightarrow> filter (\<lambda>(k', e). k' = k) (AList.update k v al) = [(k, v)]"
proof (induction al)
  case Nil
  show ?case by simp
next
  case (Cons a al)
  then show ?case
    by (cases a) (auto simp add: filter_key_absent)
qed

lemma length_update_present:
  "k \<in> fst ` set al \<Longrightarrow> length (AList.update k v al) = length al"
  by (induction al) auto

text \<open>
  Claim C8. In every state the cache can reach, no key has two entries (and every key
  is a normalized plate). Inserting twice for plates with the same key leaves exactly
  one entry for that key, the one of the second insert with the second timestamp, and
  the second insert does not change the number of entries.
\<close>

theorem cache_one_entry_per_key:
  assumes "reachable pc" and "normalize_plate p2 = normalize_plate p1"
  shows "distinct (map fst (cache pc))
     \<and> list_all (\<lambda>(k, e). normalize_plate k = k) (cache pc)
     \<and> distinct (map fst (cache (add_plate (add_plate pc t1 p1 r1) t2 p2 r2)))
     \<and> filter (\<lambda>(k, e). k = normalize_plate p1)
          (cache (add_plate (add_plate pc t1 p1 r1) t2 p2 r2)) =
        [(normalize_plate p1,
          \<lparr> ce_plate_number = normalize_plate p1, ce_result = r2, ce_timestamp = t2 \<rparr>)]
     \<and> length (cache (add_plate (add_plate pc t1 p1 r1) t2 p2 r2)) =
        length (cache (add_plate pc t1 p1 r1))"
proof -
  let ?pc1 = "add_plate pc t1 p1 r1"
  have d0: "distinct (map fst (cache pc))"
    using reachable_cache_inv [OF assms(1)] by (simp add: cache_inv_def)
  have n0: "list_all (\<lambda>(k, e). normalize_plate k = k) (cache pc)"
    using reachable_cache_inv [OF assms(1)] by (auto simp add: cache_inv_def list_all_iff)
  have d1: "distinct (map fst (cache ?pc1))"
    using d0 by (simp add: add_plate_def Let_def AList.distinct_update)
  have in1: "normalize_plate p1 \<in> fst ` set (cache ?pc1)"
    by (simp add: add_plate_def Let_def AList.dom_update)
  have c2: "cache (add_plate ?pc1 t2 p2 r2) =
        AList.update (normalize_plate p1)
          \<lparr> ce_plate_number = normalize_plate p1, ce_result = r2, ce_timestamp = t2 \<rparr>
          (cache ?pc1)"
    using assms(2) by (simp add: add_plate_def [of ?pc1] Let_def)
  show ?thesis
    unfolding c2 using d0 n0 d1 in1
    by (simp add: AList.distinct_update filter_key_update length_update_present)
qed

theorem cache_one_entry_per_key_witness:
  "reachable (PlateCache_init default_settings None)
   \<and> normalize_plate (ascii ''abc-123'') = normalize_plate (ascii ''ABC 123'')
   \<and> filter (\<lambda>(k, e). k = (ascii ''ABC123''))
        (cache (add_plate (add_plate (PlateCache_init default_settings None) 1000 (ascii ''ABC 123'')
                  (sample_status (ascii ''ABC 123'') False True))
                2000 (ascii ''abc-123'') (sample_status (ascii ''abc-123'') True True))) =
      [((ascii ''ABC123''), \<lparr> ce_plate_number = (ascii ''ABC123''),
                      ce_result = sample_status (ascii ''abc-123'') True True, ce_timestamp = 2000 \<rparr>)]"
  using cache_one_entry_per_key [OF r_init, of "ascii ''abc-123''" "ascii ''ABC 123''" default_settings None
          1000 "sample_status (ascii ''ABC 123'') False True" 2000 "sample_status (ascii ''abc-123'') True True"]
  by (simp add: normalize_samples r_init)


subsection \<open>Fine policy\<close>

text \<open>
  Claim C5. \<open>calculate_fine\<close> is defined on every status and returns: compliant,
  zero and \<open>none\<close>; tax expired, the road-tax fine and \<open>road_tax\<close>; insurance
  expired, the insurance fine and \<open>insurance\<close>; both expired, the sum of the two
  fines and \<open>both\<close>. With the default settings the amounts are 0, 150, 300 and 450.
  Each of the four statuses is the status of some vehicle.
\<close>

theorem calculate_fine_table:
  "calculate_fine svc v =
     (case compliance_status v of
        COMPLIANT \<Rightarrow> (0, ''none'')
      | TAX_EXPIRED \<Rightarrow> (road_tax_fine svc, ''road_tax'')
      | INSURANCE_EXPIRED \<Rightarrow> (insurance_fine svc, ''insurance'')
      | BOTH_EXPIRED \<Rightarrow> (road_tax_fine svc + insurance_fine svc, ''both''))
   \<and> calculate_fine (FineService_init default_settings) v =
     (case compliance_status v of
        COMPLIANT \<Rightarrow> (0, ''none'')
      | TAX_EXPIRED \<Rightarrow> (150, ''road_tax'')
      | INSURANCE_EXPIRED \<Rightarrow> (300, ''insurance'')
      | BOTH_EXPIRED \<Rightarrow> (450, ''both''))
   \<and> road_tax_fine (FineService_init default_settings) = 150
   \<and> insurance_fine (FineService_init default_settings) = 300
   \<and> (\<exists>u. compliance_status u = s)"
proof (intro conjI)
  show "road_tax_fine (FineService_init default_settings) = 150"
    by (simp add: FineService_init_def default_settings_def)
  show "insurance_fine (FineService_init default_settings) = 300"
    by (simp add: FineService_init_def default_settings_def)
  show "calculate_fine svc v =
     (case compliance_status v of
        COMPLIANT \<Rightarrow> (0, ''none'')
      | TAX_EXPIRED \<Rightarrow> (road_tax_fine svc, ''road_tax'')
      | INSURANCE_EXPIRED \<Rightarrow> (insurance_fine svc, ''insurance'')
      | BOTH_EXPIRED \<Rightarrow> (road_tax_fine svc + insurance_fine svc, ''both''))"
    by (cases "compliance_status v") (simp_all add: calculate_fine_def)
  show "calculate_fine (FineService_init default_settings) v =
     (case compliance_status v of
        COMPLIANT \<Rightarrow> (0, ''none'')
      | TAX_EXPIRED \<Rightarrow> (150, ''road_tax'')
      | INSURANCE_EXPIRED \<Rightarrow> (300, ''insurance'')
      | BOTH_EXPIRED \<Rightarrow> (450, ''both''))"
    by (cases "compliance_status v")
       (simp_all add: calculate_fine_def FineService_init_def default_settings_def)
  show "\<exists>u. compliance_status u = s"
  proof (cases s)
    case COMPLIANT
    then have "compliance_status (sample_status [] True True) = s"
      by (simp add: compliance_status_def sample_status_def)
    then show ?thesis ..
  next
    case TAX_EXPIRED
    then have "compliance_status (sample_status [] False True) = s"
      by (simp add: compliance_status_def sample_status_def)
    then show ?thesis ..
  next
    case INSURANCE_EXPIRED
    then have "compliance_status (sample_status [] True False) = s"
      by (simp add: compliance_status_def sample_status_def)
    then show ?thesis ..
  next
    case BOTH_EXPIRED
    then have "compliance_status (sample_status [] False False) = s"
      by (simp add: compliance_status_def sample_status_def)
    then show ?thesis ..
  qed
qed

text \<open>
  The three ways through \<open>_process_plate\<close>: a cache hit, a miss with a failed
  validation, a miss with a validated status.
\<close>

lemma process_plate_hit:
  assumes "fst (get_cached_result (plate_cache w) (t_lookup env) p) = Some st"
  shows "process_plate svc w env p c =
     (\<lparr> sr_plate_number = p, sr_confidence = c, cached = True, vehicle_status = Some st,
        fine_issued = False, sr_fine_amount = None, error = None \<rparr>,
      w\<lparr>plate_cache := snd (get_cached_result (plate_cache w) (t_lookup env) p)\<rparr>)"
  using assms by (simp add: process_plate_def split_beta)

lemma process_plate_miss_error:
  assumes "fst (get_cached_result (plate_cache w) (t_lookup env) p) = None"
    and "check_vehicle p (http env) (t_mock env) (draws env) = Inl msg"
  shows "process_plate svc w env p c =
     (\<lparr> sr_plate_number = p, sr_confidence = c, cached = False, vehicle_status = None,
        fine_issued = False, sr_fine_amount = None, error = Some msg \<rparr>,
      w\<lparr>plate_cache := snd (get_cached_result (plate_cache w) (t_lookup env) p)\<rparr>)"
  using assms by (simp add: process_plate_def split_beta)

lemma process_plate_miss_ok:
  assumes "fst (get_cached_result (plate_cache w) (t_lookup env) p) = None"
    and "check_vehicle p (http env) (t_mock env) (draws env) = Inr v"
  shows "process_plate svc w env p c =
     (let w2 = w\<lparr>plate_cache :=
                  add_plate (snd (get_cached_result (plate_cache w) (t_lookup env) p))
                    (t_insert env) p v\<rparr>;
          r = (if \<not> is_compliant v \<and> c \<ge> MIN_FINE_CONFIDENCE
               then issue_fine svc w2 v c (t_issued env) (t_scanned env)
               else (None, log_scan w2 p c (Some v) False False (t_scanned env)))
      in (\<lparr> sr_plate_number = p, sr_confidence = c, cached = False, vehicle_status = Some v,
            fine_issued = (fst r \<noteq> None), sr_fine_amount = map_option fr_fine_amount (fst r),
            error = None \<rparr>, snd r))"
  using assms by (simp add: process_plate_def split_beta Let_def)

subsection \<open>Scan pipeline\<close>

lemma issue_fine_cache: "plate_cache (snd (issue_fine svc w v c t1 t2)) = plate_cache w"
  by (simp add: issue_fine_def split_beta Let_def)

lemma log_scan_cache: "plate_cache (log_scan w p c v a b t) = plate_cache w"
  by (simp add: log_scan_def)

lemma issue_fine_issued:
  assumes "\<not> is_compliant v" "fst (calculate_fine svc v) \<noteq> 0"
  shows "issue_fine svc w v c t1 t2 =
     (Some \<lparr> fr_id = Some (length (fines w) + 1),
             fr_plate_number = vs_plate_number v,
             fr_owner_name = vs_owner_name v,
             fr_owner_id = vs_owner_id v,
             fr_fine_type = snd (calculate_fine svc v),
             fr_fine_amount = fst (calculate_fine svc v),
             fr_issued_at = t1,
             fr_paid = False \<rparr>,
      w\<lparr> fines := fines w @
            [\<lparr> f_id = length (fines w) + 1,
               f_plate_number = vs_plate_number v,
               f_owner_name = vs_owner_name v,
               f_owner_id = vs_owner_id v,
               f_fine_type = snd (calculate_fine svc v),
               f_fine_amount = fst (calculate_fine svc v),
               f_issued_at = t1,
               f_paid = False,
               f_paid_at = None \<rparr>],
         scan_logs := scan_logs w @
            [\<lparr> sl_id = length (scan_logs w) + 1,
               sl_plate_number = vs_plate_number v,
               sl_scanned_at = t2,
               sl_confidence = c,
               sl_road_tax_valid = Some (road_tax_valid v),
               sl_insurance_valid = Some (insurance_valid v),
               sl_fine_issued = True,
               sl_cached_result = False \<rparr>],
         notified := notified w @
            [(vs_plate_number v, fst (calculate_fine svc v), snd (calculate_fine svc v))] \<rparr>)"
  using assms by (simp add: issue_fine_def split_beta Let_def)

lemma default_fine_nonzero:
  "\<not> is_compliant v \<Longrightarrow> fst (calculate_fine (FineService_init default_settings) v) \<noteq> 0"
  by (simp add: calculate_fine_def compliance_status_def is_compliant_def
        FineService_init_def default_settings_def)

text \<open>
  Claim C4. On a cache hit the pipeline creates no fine row, writes no scan-log row and
  notifies nobody, whatever the confidence and whatever the cached status; the result
  has \<open>cached = True\<close>, \<open>fine_issued = False\<close> and carries the cached status.
\<close>

theorem cache_hit_no_fine:
  assumes "fst (get_cached_result (plate_cache w) (t_lookup env) p) = Some st"
  shows "fst (process_plate svc w env p c) =
           \<lparr> sr_plate_number = p, sr_confidence = c, cached = True, vehicle_status = Some st,
              fine_issued = False, sr_fine_amount = None, error = None \<rparr>
     \<and> fines (snd (process_plate svc w env p c)) = fines w
     \<and> scan_logs (snd (process_plate svc w env p c)) = scan_logs w
     \<and> notified (snd (process_plate svc w env p c)) = notified w"
  by (simp add: process_plate_hit [OF assms])

text \<open>
  Claim C1, as the source has it. On a cache miss with a validated, non-compliant
  status: if the confidence is at least 0.9 and the computed fine is not zero, exactly
  one fine row is appended together with one scan-log row with \<open>fine_issued = True\<close>,
  and the result reports the fine; if the confidence is below 0.9, no fine row is
  created and one scan-log row with \<open>fine_issued = False\<close> is appended. With the
  default fine amounts the computed fine of a non-compliant vehicle is never zero.
\<close>

theorem confidence_gate:
  assumes miss: "fst (get_cached_result (plate_cache w) (t_lookup env) p) = None"
    and valid: "check_vehicle p (http env) (t_mock env) (draws env) = Inr v"
    and nc: "\<not> is_compliant v"
  shows "(c \<ge> 9 / 10 \<and> fst (calculate_fine svc v) \<noteq> 0 \<longrightarrow>
            fines (snd (process_plate svc w env p c)) = fines w @
              [\<lparr> f_id = length (fines w) + 1,
                 f_plate_number = vs_plate_number v,
                 f_owner_name = vs_owner_name v,
                 f_owner_id = vs_owner_id v,
                 f_fine_type = snd (calculate_fine svc v),
                 f_fine_amount = fst (calculate_fine svc v),
                 f_issued_at = t_issued env,
                 f_paid = False,
                 f_paid_at = None \<rparr>]
            \<and> scan_logs (snd (process_plate svc w env p c)) = scan_logs w @
              [\<lparr> sl_id = length (scan_logs w) + 1,
                 sl_plate_number = vs_plate_number v,
                 sl_scanned_at = t_scanned env,
                 sl_confidence = c,
                 sl_road_tax_valid = Some (road_tax_valid v),
                 sl_insurance_valid = Some (insurance_valid v),
                 sl_fine_issued = True,
                 sl_cached_result = False \<rparr>]
            \<and> fine_issued (fst (process_plate svc w env p c))
            \<and> sr_fine_amount (fst (process_plate svc w env p c)) = Some (fst (calculate_fine svc v)))
     \<and> (c < 9 / 10 \<longrightarrow>
            fines (snd (process_plate svc w env p c)) = fines w
            \<and> scan_logs (snd (process_plate svc w env p c)) = scan_logs w @
              [\<lparr> sl_id = length (scan_logs w) + 1,
                 sl_plate_number = p,
                 sl_scanned_at = t_scanned env,
                 sl_confidence = c,
                 sl_road_tax_valid = Some (road_tax_valid v),
                 sl_insurance_valid = Some (insurance_valid v),
                 sl_fine_issued = False,
                 sl_cached_result = False \<rparr>]
            \<and> \<not> fine_issued (fst (process_plate svc w env p c)))
     \<and> fst (calculate_fine (FineService_init default_settings) v) \<noteq> 0"
proof (intro conjI impI)
  show "fst (calculate_fine (FineService_init default_settings) v) \<noteq> 0"
    using nc by (rule default_fine_nonzero)
next
  assume low: "c < 9 / 10"
  then show "fines (snd (process_plate svc w env p c)) = fines w"
    by (simp add: process_plate_miss_ok [OF miss valid] Let_def MIN_FINE_CONFIDENCE_def
          log_scan_def)
  from low show "scan_logs (snd (process_plate svc w env p c)) = scan_logs w @
              [\<lparr> sl_id = length (scan_logs w) + 1,
                 sl_plate_number = p,
                 sl_scanned_at = t_scanned env,
                 sl_confidence = c,
                 sl_road_tax_valid = Some (road_tax_valid v),
                 sl_insurance_valid = Some (insurance_valid v),
                 sl_fine_issued = False,
                 sl_cached_result = False \<rparr>]"
    by (simp add: process_plate_miss_ok [OF miss valid] Let_def MIN_FINE_CONFIDENCE_def
          log_scan_def)
  from low show "\<not> fine_issued (fst (process_plate svc w env p c))"
    by (simp add: process_plate_miss_ok [OF miss valid] Let_def MIN_FINE_CONFIDENCE_def)
next
  assume high: "c \<ge> 9 / 10 \<and> fst (calculate_fine svc v) \<noteq> 0"
  then have nz: "fst (calculate_fine svc v) \<noteq> 0" and hc: "c \<ge> 9 / 10"
    by simp_all
  note step = process_plate_miss_ok [OF miss valid] issue_fine_issued [OF nc nz]
  from hc nc show "fines (snd (process_plate svc w env p c)) = fines w @
              [\<lparr> f_id = length (fines w) + 1,
                 f_plate_number = vs_plate_number v,
                 f_owner_name = vs_owner_name v,
                 f_owner_id = vs_owner_id v,
                 f_fine_type = snd (calculate_fine svc v),
                 f_fine_amount = fst (calculate_fine svc v),
                 f_issued_at = t_issued env,
                 f_paid = False,
                 f_paid_at = None \<rparr>]"
    by (simp add: step Let_def MIN_FINE_CONFIDENCE_def)
  from hc nc show "scan_logs (snd (process_plate svc w env p c)) = scan_logs w @
              [\<lparr> sl_id = length (scan_logs w) + 1,
                 sl_plate_number = vs_plate_number v,
                 sl_scanned_at = t_scanned env,
                 sl_confidence = c,
                 sl_road_tax_valid = Some (road_tax_valid v),
                 sl_insurance_valid = Some (insurance_valid v),
                 sl_fine_issued = True,
                 sl_cached_result = False \<rparr>]"
    by (simp add: step Let_def MIN_FINE_CONFIDENCE_def)
  from hc nc show "fine_issued (fst (process_plate svc w env p c))"
    by (simp add: step Let_def MIN_FINE_CONFIDENCE_def)
  from hc nc show "sr_fine_amount (fst (process_plate svc w env p c)) =
      Some (fst (calculate_fine svc v))"
    by (simp add: step Let_def MIN_FINE_CONFIDENCE_def)
qed

text \<open>
  Evaluation of the sample inputs.
\<close>

lemma start_world_sel:
  "plate_cache (start_world settings) = PlateCache_init settings None"
  "fines (start_world settings) = []" "scan_logs (start_world settings) = []"
  "notified (start_world settings) = []"
  by (simp_all add: start_world_def)

lemma init_miss: "fst (get_cached_result (PlateCache_init settings m) t p) = None"
  by (simp add: get_cached_result_def PlateCache_init_def)

lemma start_world_miss:
  "fst (get_cached_result (plate_cache (start_world settings)) t p) = None"
  by (simp add: start_world_sel init_miss)

lemma check_vehicle_200:
  "check_vehicle p (Response 200 (sample_data a b)) t rnd =
     Inr (sample_status p a b)"
  by (simp add: check_vehicle_def sample_data_def sample_status_def)

lemma sample_env_sel:
  "t_lookup (sample_env t h) = t" "http (sample_env t h) = h" "t_mock (sample_env t h) = t + 1"
  "t_insert (sample_env t h) = t + 2" "t_issued (sample_env t h) = t + 3"
  "t_scanned (sample_env t h) = t + 4"
  "draws (sample_env t h) =
     \<lparr> tax_draw = 0.9, insurance_draw = 0.9, tax_days = 30, insurance_days = 30 \<rparr>"
  by (simp_all add: sample_env_def)

lemma sample_status_sel:
  "vs_plate_number (sample_status p a b) = p" "road_tax_valid (sample_status p a b) = a"
  "insurance_valid (sample_status p a b) = b"
  "vs_owner_name (sample_status p a b) = Some (ascii ''Tan Wei Ming'')"
  "vs_owner_id (sample_status p a b) = Some (ascii ''900101105555'')"
  by (simp_all add: sample_status_def)

lemma sample_fines:
  "calculate_fine (FineService_init default_settings) (sample_status p False False) = (450, ''both'')"
  "calculate_fine (FineService_init default_settings) (sample_status p False True) = (150, ''road_tax'')"
  "calculate_fine (FineService_init (default_settings\<lparr>road_tax_fine_amount := 0\<rparr>))
     (sample_status p False True) = (0, ''road_tax'')"
  by (simp_all add: calculate_fine_def compliance_status_def sample_status_sel
        FineService_init_def default_settings_def)

theorem confidence_gate_witness:
  "fst (get_cached_result (plate_cache (start_world default_settings))
          (t_lookup (sample_env 1000 (Response 200 (sample_data False False)))) (ascii ''ABC 123'')) = None
   \<and> check_vehicle (ascii ''ABC 123'') (Response 200 (sample_data False False)) 1001
        (draws (sample_env 1000 (Response 200 (sample_data False False)))) =
      Inr (sample_status (ascii ''ABC 123'') False False)
   \<and> \<not> is_compliant (sample_status (ascii ''ABC 123'') False False)
   \<and> (95 / 100 :: real) \<ge> 9 / 10
   \<and> fst (calculate_fine (FineService_init default_settings)
            (sample_status (ascii ''ABC 123'') False False)) \<noteq> 0
   \<and> fines (snd (process_plate (FineService_init default_settings)
        (start_world default_settings)
        (sample_env 1000 (Response 200 (sample_data False False))) (ascii ''ABC 123'') (95 / 100))) =
      [\<lparr> f_id = 1, f_plate_number = (ascii ''ABC 123''), f_owner_name = Some (ascii ''Tan Wei Ming''),
         f_owner_id = Some (ascii ''900101105555''), f_fine_type = ''both'', f_fine_amount = 450,
         f_issued_at = 1003, f_paid = False, f_paid_at = None \<rparr>]
   \<and> fine_issued (fst (process_plate (FineService_init default_settings)
        (start_world default_settings)
        (sample_env 1000 (Response 200 (sample_data False False))) (ascii ''ABC 123'') (95 / 100)))
   \<and> (4 / 10 :: real) < 9 / 10
   \<and> fines (snd (process_plate (FineService_init default_settings)
        (start_world default_settings)
        (sample_env 1000 (Response 200 (sample_data False False))) (ascii ''ABC 123'') (4 / 10))) = []
   \<and> scan_logs (snd (process_plate (FineService_init default_settings)
        (start_world default_settings)
        (sample_env 1000 (Response 200 (sample_data False False))) (ascii ''ABC 123'') (4 / 10))) =
      [\<lparr> sl_id = 1, sl_plate_number = (ascii ''ABC 123''), sl_scanned_at = 1004, sl_confidence = 4 / 10,
         sl_road_tax_valid = Some False, sl_insurance_valid = Some False,
         sl_fine_issued = False, sl_cached_result = False \<rparr>]"
  using confidence_gate [of "start_world default_settings"
          "sample_env 1000 (Response 200 (sample_data False False))" "ascii ''ABC 123''"
          "sample_status (ascii ''ABC 123'') False False" "95 / 100" "FineService_init default_settings"]
        confidence_gate [of "start_world default_settings"
          "sample_env 1000 (Response 200 (sample_data False False))" "ascii ''ABC 123''"
          "sample_status (ascii ''ABC 123'') False False" "4 / 10" "FineService_init default_settings"]
  by (simp add: start_world_miss check_vehicle_200 sample_env_sel sample_status_sel
        sample_fines is_compliant_def start_world_sel init_miss)

text \<open>
  Claim C1, as the specification words it, promises a fine for every non-compliant
  status read with confidence at least 0.9. With the road-tax fine configured as zero,
  a vehicle with expired road tax read at confidence 0.95 gets no fine row: the guard
  \<open>if fine_amount == 0: return None\<close> of \<open>issue_fine\<close> returns first.
\<close>

theorem zero_fine_not_issued:
  "fst (get_cached_result (plate_cache (start_world (default_settings\<lparr>road_tax_fine_amount := 0\<rparr>)))
          (t_lookup (sample_env 1000 (Response 200 (sample_data False True)))) (ascii ''ABC123'')) = None
   \<and> check_vehicle (ascii ''ABC123'') (http (sample_env 1000 (Response 200 (sample_data False True))))
        (t_mock (sample_env 1000 (Response 200 (sample_data False True))))
        (draws (sample_env 1000 (Response 200 (sample_data False True)))) =
      Inr (sample_status (ascii ''ABC123'') False True)
   \<and> \<not> is_compliant (sample_status (ascii ''ABC123'') False True)
   \<and> (95 / 100 :: real) \<ge> 9 / 10
   \<and> fines (snd (process_plate (FineService_init (default_settings\<lparr>road_tax_fine_amount := 0\<rparr>))
        (start_world (default_settings\<lparr>road_tax_fine_amount := 0\<rparr>))
        (sample_env 1000 (Response 200 (sample_data False True))) (ascii ''ABC123'') (95 / 100))) = []
   \<and> scan_logs (snd (process_plate (FineService_init (default_settings\<lparr>road_tax_fine_amount := 0\<rparr>))
        (start_world (default_settings\<lparr>road_tax_fine_amount := 0\<rparr>))
        (sample_env 1000 (Response 200 (sample_data False True))) (ascii ''ABC123'') (95 / 100))) = []"
  by (simp add: process_plate_miss_ok [OF start_world_miss] start_world_miss check_vehicle_200
        sample_env_sel sample_status_sel sample_fines is_compliant_def
        MIN_FINE_CONFIDENCE_def Let_def issue_fine_def start_world_sel init_miss
        add_plate_def)

lemma miss_leaves_no_entry:
  assumes "fst (get_cached_result pc t p) = None"
  shows "map_of (cache (snd (get_cached_result pc t p))) (normalize_plate p) = None"
    and "set (cache (snd (get_cached_result pc t p))) \<subseteq> set (cache pc)"
proof -
  show "map_of (cache (snd (get_cached_result pc t p))) (normalize_plate p) = None"
  proof (cases "map_of (cache pc) (normalize_plate p)")
    case None
    then show ?thesis by (simp add: get_cached_result_def)
  next
    case (Some entry)
    with assms have "is_expired entry (cooldown pc) t"
      by (simp add: get_cached_result_def split: if_splits)
    with Some show ?thesis
      by (simp add: get_cached_result_def AList.delete_conv')
  qed
  show "set (cache (snd (get_cached_result pc t p))) \<subseteq> set (cache pc)"
    by (auto simp add: get_cached_result_def Let_def AList.delete_eq
          split: option.splits if_splits)
qed

lemma init_lookup:
  "get_cached_result (PlateCache_init settings m) t p =
     (None, (PlateCache_init settings m)\<lparr>miss_count := 1\<rparr>)"
  "cache (PlateCache_init settings m) = []"
  by (simp_all add: get_cached_result_def PlateCache_init_def)

lemma process_plate_cache_after_ok:
  assumes "fst (get_cached_result (plate_cache w) (t_lookup env) p) = None"
    and "check_vehicle p (http env) (t_mock env) (draws env) = Inr v"
  shows "plate_cache (snd (process_plate svc w env p c)) =
           add_plate (snd (get_cached_result (plate_cache w) (t_lookup env) p)) (t_insert env) p v"
  by (simp add: process_plate_miss_ok [OF assms] Let_def issue_fine_cache log_scan_cache)

text \<open>
  Claim C2, as the source has it. On a cache miss, when the validation service answers
  with a status other than 200 and 404, the result carries the message
  \<open>API returned status <code>\<close>, no fine row and no scan-log row is written, nobody
  is notified, and the cache is as the lookup left it: it gained no entry and holds
  none for the plate's key. When the request itself fails (connection error or
  timeout), \<open>check_vehicle\<close> does not fail: it returns the mock status, the result
  carries no error and the mock status enters the cache.
\<close>

theorem validator_failure:
  assumes miss: "fst (get_cached_result (plate_cache w) (t_lookup env) p) = None"
  shows "(http env = Response code data \<and> code \<noteq> 200 \<and> code \<noteq> 404 \<longrightarrow>
            fst (process_plate svc w env p c) =
              \<lparr> sr_plate_number = p, sr_confidence = c, cached = False, vehicle_status = None,
                 fine_issued = False, sr_fine_amount = None,
                 error = Some (''API returned status '' @ str_nat code) \<rparr>
            \<and> fines (snd (process_plate svc w env p c)) = fines w
            \<and> scan_logs (snd (process_plate svc w env p c)) = scan_logs w
            \<and> notified (snd (process_plate svc w env p c)) = notified w
            \<and> plate_cache (snd (process_plate svc w env p c)) =
                snd (get_cached_result (plate_cache w) (t_lookup env) p)
            \<and> set (cache (plate_cache (snd (process_plate svc w env p c))))
                \<subseteq> set (cache (plate_cache w))
            \<and> map_of (cache (plate_cache (snd (process_plate svc w env p c))))
                (normalize_plate p) = None)
     \<and> (http env = RequestError e \<longrightarrow>
            check_vehicle p (http env) (t_mock env) (draws env) =
              Inr (get_mock_status p (t_mock env) (draws env))
            \<and> error (fst (process_plate svc w env p c)) = None
            \<and> vehicle_status (fst (process_plate svc w env p c)) =
                Some (get_mock_status p (t_mock env) (draws env))
            \<and> map_of (cache (plate_cache (snd (process_plate svc w env p c))))
                (normalize_plate p) =
                Some \<lparr> ce_plate_number = normalize_plate p,
                       ce_result = get_mock_status p (t_mock env) (draws env),
                       ce_timestamp = t_insert env \<rparr>)"
proof (intro conjI impI)
  assume up: "http env = Response code data \<and> code \<noteq> 200 \<and> code \<noteq> 404"
  then have cv: "check_vehicle p (http env) (t_mock env) (draws env) =
      Inl (''API returned status '' @ str_nat code)"
    by (simp add: check_vehicle_def)
  note step = process_plate_miss_error [OF miss cv]
  show "fst (process_plate svc w env p c) =
              \<lparr> sr_plate_number = p, sr_confidence = c, cached = False, vehicle_status = None,
                 fine_issued = False, sr_fine_amount = None,
                 error = Some (''API returned status '' @ str_nat code) \<rparr>"
    by (simp add: step)
  show "fines (snd (process_plate svc w env p c)) = fines w"
    by (simp add: step)
  show "scan_logs (snd (process_plate svc w env p c)) = scan_logs w"
    by (simp add: step)
  show "notified (snd (process_plate svc w env p c)) = notified w"
    by (simp add: step)
  show "plate_cache (snd (process_plate svc w env p c)) =
          snd (get_cached_result (plate_cache w) (t_lookup env) p)"
    by (simp add: step)
  show "set (cache (plate_cache (snd (process_plate svc w env p c))))
          \<subseteq> set (cache (plate_cache w))"
    using miss_leaves_no_entry(2) [OF miss] by (simp add: step)
  show "map_of (cache (plate_cache (snd (process_plate svc w env p c)))) (normalize_plate p) = None"
    using miss_leaves_no_entry(1) [OF miss] by (simp add: step)
next
  assume net: "http env = RequestError e"
  then show cv: "check_vehicle p (http env) (t_mock env) (draws env) =
      Inr (get_mock_status p (t_mock env) (draws env))"
    by (simp add: check_vehicle_def)
  show "error (fst (process_plate svc w env p c)) = None"
    by (simp add: process_plate_miss_ok [OF miss cv] Let_def)
  show "vehicle_status (fst (process_plate svc w env p c)) =
      Some (get_mock_status p (t_mock env) (draws env))"
    by (simp add: process_plate_miss_ok [OF miss cv] Let_def)
  show "map_of (cache (plate_cache (snd (process_plate svc w env p c)))) (normalize_plate p) =
      Some \<lparr> ce_plate_number = normalize_plate p,
             ce_result = get_mock_status p (t_mock env) (draws env),
             ce_timestamp = t_insert env \<rparr>"
    by (simp add: process_plate_cache_after_ok [OF miss cv] add_plate_def Let_def
          AList.update_conv')
qed

lemma str_nat_503: "str_nat 503 = ''503''"
  by (simp add: str_nat.simps char_of_nat_eq)

theorem validator_failure_witness:
  "fst (get_cached_result (plate_cache (start_world default_settings)) 1000 (ascii ''ABC123'')) = None
   \<and> http (sample_env 1000 (Response 503 (sample_data True True))) =
        Response 503 (sample_data True True)
   \<and> (503::nat) \<noteq> 200 \<and> (503::nat) \<noteq> 404
   \<and> error (fst (process_plate (FineService_init default_settings) (start_world default_settings)
        (sample_env 1000 (Response 503 (sample_data True True))) (ascii ''ABC123'') (95 / 100))) =
      Some ''API returned status 503''
   \<and> fines (snd (process_plate (FineService_init default_settings) (start_world default_settings)
        (sample_env 1000 (Response 503 (sample_data True True))) (ascii ''ABC123'') (95 / 100))) = []
   \<and> scan_logs (snd (process_plate (FineService_init default_settings)
        (start_world default_settings)
        (sample_env 1000 (Response 503 (sample_data True True))) (ascii ''ABC123'') (95 / 100))) = []
   \<and> cache (plate_cache (snd (process_plate (FineService_init default_settings)
        (start_world default_settings)
        (sample_env 1000 (Response 503 (sample_data True True))) (ascii ''ABC123'') (95 / 100)))) = []
   \<and> http (sample_env 1000 (RequestError ''timed out'')) = RequestError ''timed out''
   \<and> error (fst (process_plate (FineService_init default_settings) (start_world default_settings)
        (sample_env 1000 (RequestError ''timed out'')) (ascii ''ABC123'') (95 / 100))) = None"
  using validator_failure [of "start_world default_settings"
          "sample_env 1000 (Response 503 (sample_data True True))" "ascii ''ABC123''"
          503 "sample_data True True" "FineService_init default_settings" "95 / 100"]
        validator_failure [of "start_world default_settings"
          "sample_env 1000 (RequestError ''timed out'')" "ascii ''ABC123''"
          503 "sample_data True True" "FineService_init default_settings" "95 / 100"
          "''timed out''"]
  by (simp add: sample_env_sel start_world_sel init_lookup str_nat_503)

lemma mock_invalid:
  "road_tax_valid (get_mock_status p t
      \<lparr> tax_draw = 0.9, insurance_draw = 0.9, tax_days = 30, insurance_days = 30 \<rparr>) = False"
  "insurance_valid (get_mock_status p t
      \<lparr> tax_draw = 0.9, insurance_draw = 0.9, tax_days = 30, insurance_days = 30 \<rparr>) = False"
  by (simp_all add: get_mock_status_def Let_def)

text \<open>
  Claim C2, as the specification words it, counts a timeout as a validator failure with
  an error result and no effects. After a timeout on a never-seen plate read at
  confidence 0.95 (the mock generator drawing both documents invalid) the result has
  no error, the cache holds the plate, and a fine of 450 and its scan-log row exist.
\<close>

theorem network_error_uses_mock:
  "fst (get_cached_result (plate_cache (start_world default_settings))
         (t_lookup (sample_env 1000 (RequestError ''timed out''))) (ascii ''ABC123'')) = None
   \<and> error (fst (process_plate (FineService_init default_settings) (start_world default_settings)
        (sample_env 1000 (RequestError ''timed out'')) (ascii ''ABC123'') (95 / 100))) = None
   \<and> map fst (cache (plate_cache (snd (process_plate (FineService_init default_settings)
        (start_world default_settings)
        (sample_env 1000 (RequestError ''timed out'')) (ascii ''ABC123'') (95 / 100))))) = [ascii ''ABC123'']
   \<and> map f_fine_amount (fines (snd (process_plate (FineService_init default_settings)
        (start_world default_settings)
        (sample_env 1000 (RequestError ''timed out'')) (ascii ''ABC123'') (95 / 100)))) = [450]
   \<and> map sl_fine_issued (scan_logs (snd (process_plate (FineService_init default_settings)
        (start_world default_settings)
        (sample_env 1000 (RequestError ''timed out'')) (ascii ''ABC123'') (95 / 100)))) = [True]"
proof -
  let ?env = "sample_env 1000 (RequestError ''timed out'')"
  let ?v = "get_mock_status (ascii ''ABC123'') 1001
      \<lparr> tax_draw = 0.9, insurance_draw = 0.9, tax_days = 30, insurance_days = 30 \<rparr>"
  have miss: "fst (get_cached_result (plate_cache (start_world default_settings))
         (t_lookup ?env) (ascii ''ABC123'')) = None"
    by (rule start_world_miss)
  have cv: "check_vehicle (ascii ''ABC123'') (http ?env) (t_mock ?env) (draws ?env) = Inr ?v"
    by (simp add: check_vehicle_def sample_env_sel)
  have nc: "\<not> is_compliant ?v"
    by (simp add: is_compliant_def mock_invalid)
  have fine: "calculate_fine (FineService_init default_settings) ?v = (450, ''both'')"
    by (simp add: calculate_fine_def compliance_status_def mock_invalid
          FineService_init_def default_settings_def)
  have nz: "fst (calculate_fine (FineService_init default_settings) ?v) \<noteq> 0"
    by (simp add: fine)
  have key: "normalize_plate (ascii ''ABC123'') = ascii ''ABC123''"
    by (rule normalize_samples)
  show ?thesis
    using nc
    by (simp add: process_plate_miss_ok [OF miss cv] issue_fine_issued [OF nc nz] fine
          Let_def MIN_FINE_CONFIDENCE_def start_world_sel init_lookup sample_env_sel
          add_plate_def key)
qed

lemma world_with_sel:
  "plate_cache (world_with pc) = pc" "fines (world_with pc) = []"
  "scan_logs (world_with pc) = []" "notified (world_with pc) = []"
  by (simp_all add: world_with_def)

lemma sample_cache_hit:
  "fst (get_cached_result sample_cache 2000 (ascii ''abc-123'')) = Some (sample_status (ascii ''ABC 123'') False True)"
  by (simp add: get_cached_result_def normalize_samples sample_cache_eq is_expired_def Let_def)

theorem cache_hit_no_fine_witness:
  "fst (get_cached_result (plate_cache (world_with sample_cache))
          (t_lookup (sample_env 2000 (Response 200 (sample_data False True)))) (ascii ''abc-123'')) =
      Some (sample_status (ascii ''ABC 123'') False True)
   \<and> \<not> is_compliant (sample_status (ascii ''ABC 123'') False True)
   \<and> cached (fst (process_plate (FineService_init default_settings) (world_with sample_cache)
        (sample_env 2000 (Response 200 (sample_data False True))) (ascii ''abc-123'') (99 / 100)))
   \<and> \<not> fine_issued (fst (process_plate (FineService_init default_settings)
        (world_with sample_cache)
        (sample_env 2000 (Response 200 (sample_data False True))) (ascii ''abc-123'') (99 / 100)))
   \<and> fines (snd (process_plate (FineService_init default_settings) (world_with sample_cache)
        (sample_env 2000 (Response 200 (sample_data False True))) (ascii ''abc-123'') (99 / 100))) = []
   \<and> scan_logs (snd (process_plate (FineService_init default_settings)
        (world_with sample_cache)
        (sample_env 2000 (Response 200 (sample_data False True))) (ascii ''abc-123'') (99 / 100))) = []"
  using cache_hit_no_fine [of "world_with sample_cache"
          "sample_env 2000 (Response 200 (sample_data False True))" "ascii ''abc-123''"
          "sample_status (ascii ''ABC 123'') False True" "FineService_init default_settings" "99 / 100"]
  by (simp add: world_with_sel sample_env_sel sample_cache_hit is_compliant_def
        sample_status_sel)

text \<open>
  Claim C10. When the validation service answers 404, \<open>check_vehicle\<close> returns a
  status with road tax and insurance both valid, which is compliant; so processing an
  observation whose validation answer is 404 creates no fine, in any state of the cache
  and at any confidence.
\<close>

theorem not_found_is_compliant:
  "check_vehicle p (Response 404 data) now rnd =
     Inr \<lparr> vs_plate_number = p, vs_owner_name = None, vs_owner_id = None,
           road_tax_valid = True, road_tax_expiry = None,
           insurance_valid = True, insurance_expiry = None \<rparr>
   \<and> is_compliant \<lparr> vs_plate_number = p, vs_owner_name = None, vs_owner_id = None,
           road_tax_valid = True, road_tax_expiry = None,
           insurance_valid = True, insurance_expiry = None \<rparr>
   \<and> fines (snd (process_plate svc w (env\<lparr>http := Response 404 data\<rparr>) p c)) = fines w
   \<and> notified (snd (process_plate svc w (env\<lparr>http := Response 404 data\<rparr>) p c)) = notified w
   \<and> \<not> fine_issued (fst (process_plate svc w (env\<lparr>http := Response 404 data\<rparr>) p c))
   \<and> error (fst (process_plate svc w (env\<lparr>http := Response 404 data\<rparr>) p c)) = None"
proof -
  let ?env = "env\<lparr>http := Response 404 data\<rparr>"
  let ?v = "\<lparr> vs_plate_number = p, vs_owner_name = None, vs_owner_id = None,
           road_tax_valid = True, road_tax_expiry = None,
           insurance_valid = True, insurance_expiry = None \<rparr>"
  have cv: "check_vehicle p (Response 404 data) now rnd = Inr ?v" for now rnd
    by (simp add: check_vehicle_def)
  have comp: "is_compliant ?v"
    by (simp add: is_compliant_def)
  have "fines (snd (process_plate svc w ?env p c)) = fines w
      \<and> notified (snd (process_plate svc w ?env p c)) = notified w
      \<and> \<not> fine_issued (fst (process_plate svc w ?env p c))
      \<and> error (fst (process_plate svc w ?env p c)) = None"
  proof (cases "fst (get_cached_result (plate_cache w) (t_lookup ?env) p)")
    case None
    have cv': "check_vehicle p (http ?env) (t_mock ?env) (draws ?env) = Inr ?v"
      by (simp add: cv)
    show ?thesis
      using comp by (simp add: process_plate_miss_ok [OF None cv'] Let_def log_scan_def)
  next
    case (Some st)
    show ?thesis
      by (simp add: process_plate_hit [OF Some])
  qed
  with cv comp show ?thesis by simp
qed

text \<open>
  Scenario A, evaluated: one fine of 450 stored under the plate text as read, and the
  cache keyed by the normalized plate.
\<close>

lemma scenario_a_eval:
  "fines (snd scenario_a) =
     [\<lparr> f_id = 1, f_plate_number = (ascii ''ABC 123''), f_owner_name = Some (ascii ''Tan Wei Ming''),
        f_owner_id = Some (ascii ''900101105555''), f_fine_type = ''both'', f_fine_amount = 450,
        f_issued_at = 1003, f_paid = False, f_paid_at = None \<rparr>]"
  "map fst (cache (plate_cache (snd scenario_a))) = [ascii ''ABC123'']"
proof -
  let ?env = "sample_env 1000 (Response 200 (sample_data False False))"
  let ?v = "sample_status (ascii ''ABC 123'') False False"
  have miss: "fst (get_cached_result (plate_cache (start_world default_settings))
         (t_lookup ?env) (ascii ''ABC 123'')) = None"
    by (rule start_world_miss)
  have cv: "check_vehicle (ascii ''ABC 123'') (http ?env) (t_mock ?env) (draws ?env) = Inr ?v"
    by (simp add: check_vehicle_200 sample_env_sel)
  have nc: "\<not> is_compliant ?v"
    by (simp add: is_compliant_def sample_status_sel)
  have nz: "fst (calculate_fine (FineService_init default_settings) ?v) \<noteq> 0"
    by (simp add: sample_fines)
  note step = process_plate_miss_ok [OF miss cv] issue_fine_issued [OF nc nz]
  show "fines (snd scenario_a) =
     [\<lparr> f_id = 1, f_plate_number = (ascii ''ABC 123''), f_owner_name = Some (ascii ''Tan Wei Ming''),
        f_owner_id = Some (ascii ''900101105555''), f_fine_type = ''both'', f_fine_amount = 450,
        f_issued_at = 1003, f_paid = False, f_paid_at = None \<rparr>]"
    using nc
    by (simp add: scenario_a_def step Let_def MIN_FINE_CONFIDENCE_def sample_fines
          sample_status_sel sample_env_sel start_world_sel)
  show "map fst (cache (plate_cache (snd scenario_a))) = [ascii ''ABC123'']"
    using nc
    by (simp add: scenario_a_def step Let_def MIN_FINE_CONFIDENCE_def start_world_sel
          init_lookup add_plate_def normalize_samples sample_env_sel)
qed

text \<open>
  Claim C7. The fine row carries \<open>vehicle_status.plate_number\<close>, which is the plate
  text as passed to \<open>check_vehicle\<close>, not its normalized key. In scenario A the fine is
  stored under \<open>ABC 123\<close>, and \<open>get_fine_by_plate\<close>, which normalizes its argument
  to \<open>ABC123\<close>, does not find it.
\<close>

theorem fine_stored_under_raw_plate:
  "map f_plate_number (fines (snd scenario_a)) = [ascii ''ABC 123'']
   \<and> map fst (cache (plate_cache (snd scenario_a))) = [ascii ''ABC123'']
   \<and> normalize_plate (ascii ''ABC 123'') = ascii ''ABC123''
   \<and> get_fine_by_plate (snd scenario_a) (ascii ''ABC 123'') = []"
proof -
  have "get_fine_by_plate w p = map to_record (filter (\<lambda>f. f_plate_number f = normalize_plate p) (fines w))"
    for w p
    by (simp add: get_fine_by_plate_def normalize_plate_def)
  then show ?thesis
    by (simp add: scenario_a_eval normalize_samples)
qed

end
